theory Spec2Isabelle
  imports Complex_Main "HOL-Library.Stream"
begin

section \<open>Synthetic patient sensor data: the generator of \<open>generate_data.py\<close>\<close>

text \<open>
  The development embeds the signal simulators, the imperfection layer and the five
  per-sensor stream generators of \<open>generate_data.py\<close>.

  Conventions of the embedding.
  \<^item> Python floats are modelled by \<^typ>\<open>real\<close>: arithmetic is exact, \<open>math.sin\<close>,
    \<open>math.sqrt\<close> and \<open>math.pi\<close> are \<^const>\<open>sin\<close>, \<^const>\<open>sqrt\<close> and \<^const>\<open>pi\<close>.
  \<^item> The process-wide generator of module \<open>random\<close> is an explicit state that every
    function takes and returns. The state is the infinite sequence of draws still to
    come; each library call consumes one of them.
  \<^item> A \<open>datetime\<close> is the number of microseconds since the Unix epoch, a
    \<open>timedelta\<close> a number of microseconds (the resolution of both in Python).
  \<^item> The text of the activity pattern is kept as a string, compared as the source does.
\<close>

subsection \<open>Numeric primitives of Python\<close>

text \<open>\<open>int(x)\<close> on a float truncates toward zero.\<close>

definition py_int :: "real \<Rightarrow> int" where
  "py_int x = (if 0 \<le> x then \<lfloor>x\<rfloor> else \<lceil>x\<rceil>)"

text \<open>\<open>round(x)\<close> rounds to the nearest integer, a tie to the even neighbour.\<close>

definition py_round :: "real \<Rightarrow> int" where
  "py_round x =
     (let f = \<lfloor>x\<rfloor>; d = x - of_int f in
      if d < 1 / 2 then f
      else if 1 / 2 < d then f + 1
      else if even f then f else f + 1)"

text \<open>\<open>round(x, n)\<close> keeps \<open>n\<close> decimals.\<close>

definition round_ndigits :: "real \<Rightarrow> nat \<Rightarrow> real" where
  "round_ndigits x n = of_int (py_round (x * 10 ^ n)) / 10 ^ n"

text \<open>\<open>x % m\<close> on floats, for a positive modulus.\<close>

definition py_mod :: "real \<Rightarrow> real \<Rightarrow> real" where
  "py_mod x m = x - m * of_int \<lfloor>x / m\<rfloor>"

subsection \<open>The seeded random source\<close>

text \<open>
  The library's generator is not part of the repository. Its contract is what the model
  keeps: \<open>random.random()\<close> returns a number in \<open>[0, 1)\<close> (the fractional part of the
  next draw, so every sequence of such numbers is the behaviour of some state),
  \<open>random.uniform(a, b)\<close> is \<open>a + (b - a) * random()\<close>, \<open>random.gauss(mu, sigma)\<close> is
  \<open>mu + z * sigma\<close> for a deviate \<open>z\<close> that can be any real, and
  \<open>random.randint(a, b)\<close> is an integer between \<open>a\<close> and \<open>b\<close>, both included.
\<close>

type_synonym rng = "real stream"

definition random_random :: "rng \<Rightarrow> real \<times> rng" where
  "random_random g = (frac (shd g), stl g)"

definition random_uniform :: "real \<Rightarrow> real \<Rightarrow> rng \<Rightarrow> real \<times> rng" where
  "random_uniform a b g = (case random_random g of (u, g') \<Rightarrow> (a + (b - a) * u, g'))"

definition random_gauss :: "real \<Rightarrow> real \<Rightarrow> rng \<Rightarrow> real \<times> rng" where
  "random_gauss mu sigma g = (mu + shd g * sigma, stl g)"

definition random_randint :: "int \<Rightarrow> int \<Rightarrow> rng \<Rightarrow> int \<times> rng" where
  "random_randint a b g =
     (case random_random g of (u, g') \<Rightarrow> (a + \<lfloor>u * of_int (b - a + 1)\<rfloor>, g'))"

text \<open>\<open>random.seed(n)\<close> replaces the state of the generator, whatever it was, by the
  state the library derives from \<open>n\<close>; that derivation is a parameter.\<close>

definition random_seed :: "(int \<Rightarrow> rng) \<Rightarrow> int \<Rightarrow> rng \<Rightarrow> rng" where
  "random_seed init n g = init n"

subsection \<open>Patient configuration\<close>

record config =
  hr_offset :: int
  movement_offset :: int
  spo2_offset :: int
  temp_offset :: int
  load_offset :: int
  duration_hours :: real
  activity_pattern :: string
  hr_gaps :: "(int \<times> int) list"
  movement_gaps :: "(int \<times> int) list"
  spo2_gaps :: "(int \<times> int) list"
  temp_gaps :: "(int \<times> int) list"
  load_gaps :: "(int \<times> int) list"

text \<open>\<open>timedelta(minutes=m, seconds=s)\<close>, and \<open>timedelta(seconds=x)\<close> for a float
  \<open>x\<close>, which is rounded to the microsecond.\<close>

definition timedelta :: "int \<Rightarrow> int \<Rightarrow> int" where
  "timedelta minutes seconds = (minutes * 60 + seconds) * 1000000"

definition timedelta_seconds :: "real \<Rightarrow> int" where
  "timedelta_seconds x = py_round (x * 1000000)"

definition total_seconds :: "int \<Rightarrow> real" where
  "total_seconds td = of_int td / 1000000"

text \<open>March 15, 2024, 8:00 AM UTC.\<close>

definition BASE_TIME :: int where
  "BASE_TIME = 1710489600 * 1000000"

definition patient_001 :: config where
  "patient_001 = \<lparr>
     hr_offset = timedelta 0 0,
     movement_offset = timedelta 7 23,
     spo2_offset = timedelta 3 45,
     temp_offset = timedelta (- 15) 0,
     load_offset = timedelta 12 8,
     duration_hours = 2.5,
     activity_pattern = ''morning_routine'',
     hr_gaps = [(1200, 420), (4200, 180), (6300, 540)],
     movement_gaps = [(800, 300), (2400, 600), (5100, 240)],
     spo2_gaps = [(1800, 1200), (5400, 300)],
     temp_gaps = [(3000, 180)],
     load_gaps = [(900, 480), (3600, 360)] \<rparr>"

definition patient_002 :: config where
  "patient_002 = \<lparr>
     hr_offset = timedelta 0 0,
     movement_offset = timedelta 15 42,
     spo2_offset = timedelta 5 10,
     temp_offset = timedelta (- 8) 0,
     load_offset = timedelta 2 30,
     duration_hours = 3.0,
     activity_pattern = ''exercise_session'',
     hr_gaps = [(2100, 600), (5400, 900), (8400, 300)],
     movement_gaps = [(1500, 180), (4800, 720), (7200, 240)],
     spo2_gaps = [(3000, 480), (6600, 600)],
     temp_gaps = [(4200, 300), (7800, 180)],
     load_gaps = [(1800, 240), (5400, 420)] \<rparr>"

definition patient_003 :: config where
  "patient_003 = \<lparr>
     hr_offset = timedelta 0 0,
     movement_offset = timedelta 4 15,
     spo2_offset = timedelta 22 30,
     temp_offset = timedelta (- 25) 0,
     load_offset = timedelta 8 45,
     duration_hours = 2.0,
     activity_pattern = ''resting'',
     hr_gaps = [(1500, 300), (3600, 480)],
     movement_gaps = [(900, 420), (2700, 180), (4500, 360)],
     spo2_gaps = [(600, 540)],
     temp_gaps = [(1800, 240), (4200, 180)],
     load_gaps = [(2100, 300), (4800, 240)] \<rparr>"

definition PATIENT_CONFIGS :: "(string \<times> config) list" where
  "PATIENT_CONFIGS =
     [(''patient_001'', patient_001), (''patient_002'', patient_002),
      (''patient_003'', patient_003)]"

subsection \<open>Activity pattern models\<close>

definition add_noise :: "real \<Rightarrow> real \<Rightarrow> rng \<Rightarrow> real \<times> rng" where
  "add_noise v noise_level g =
     (case random_gauss 0 noise_level g of (z, g') \<Rightarrow> (v * (1 + z), g'))"

text \<open>The value of \<open>base_hr\<close> when \<open>simulate_heart_rate\<close> reaches its \<open>return\<close>.\<close>

definition heart_rate_base :: "real \<Rightarrow> string \<Rightarrow> real" where
  "heart_rate_base t_seconds pattern =
     (if pattern = ''morning_routine'' then
        (let phase = py_mod t_seconds 3600 / 3600;
             activity_component = 20 * sin (phase * pi * 2)
         in 65 + activity_component)
      else if pattern = ''exercise_session'' then
        (let normalized_t = t_seconds / (3 * 3600) in
         if normalized_t < 0.3 then 70 + normalized_t * 100
         else if normalized_t < 0.7 then 130 + 20 * sin (normalized_t * 20)
         else 130 - (normalized_t - 0.7) * 200)
      else 60 + 5 * sin (t_seconds / 600))"

definition simulate_heart_rate :: "real \<Rightarrow> string \<Rightarrow> rng \<Rightarrow> int \<times> rng" where
  "simulate_heart_rate t_seconds pattern g =
     (case add_noise (heart_rate_base t_seconds pattern) 0.03 g of
        (v, g') \<Rightarrow> (max 45 (min 185 (py_int v)), g'))"

subsection \<open>Imperfection layer\<close>

fun is_in_gap :: "real \<Rightarrow> (int \<times> int) list \<Rightarrow> bool" where
  "is_in_gap t_seconds [] = False"
| "is_in_gap t_seconds ((gap_start, gap_duration) # gaps) =
     (if of_int gap_start \<le> t_seconds \<and> t_seconds < of_int (gap_start + gap_duration)
      then True else is_in_gap t_seconds gaps)"

definition should_have_micro_dropout :: "real \<Rightarrow> rng \<Rightarrow> bool \<times> rng" where
  "should_have_micro_dropout probability g =
     (case random_random g of (u, g') \<Rightarrow> (u < probability, g'))"

text \<open>The loop condition \<open>not is_in_gap(t, gaps) and not should_have_micro_dropout(p)\<close>
  of every generator: the dropout draw is consumed only outside a gap.\<close>

definition sample_emitted :: "(int \<times> int) list \<Rightarrow> real \<Rightarrow> real \<Rightarrow> rng \<Rightarrow> bool \<times> rng" where
  "sample_emitted gaps probability t g =
     (if is_in_gap t gaps then (False, g)
      else (case should_have_micro_dropout probability g of (d, g') \<Rightarrow> (\<not> d, g')))"

subsection \<open>Heart rate stream\<close>

text \<open>A row of \<open>heart_rate.csv\<close>. The field \<open>hr_timestamp\<close> is the datetime whose
  \<open>isoformat()\<close> the source stores.\<close>

record hr_record =
  hr_timestamp :: int
  hr_bpm :: int
  hr_confidence :: real

text \<open>The body of the loop of \<open>generate_heart_rate_data\<close> for an emitted tick.\<close>

definition heart_rate_record :: "int \<Rightarrow> real \<Rightarrow> string \<Rightarrow> real \<Rightarrow> rng \<Rightarrow> hr_record \<times> rng" where
  "heart_rate_record start_time drift_rate pattern t g =
     (let actual_t = t * (1 + drift_rate);
          timestamp = start_time + timedelta_seconds actual_t
      in case simulate_heart_rate t pattern g of (hr, g1) \<Rightarrow>
         (case random_random g1 of (e1, g2) \<Rightarrow>
            if e1 < 0.008 then
              (\<lparr>hr_timestamp = timestamp, hr_bpm = - 1, hr_confidence = 0\<rparr>, g2)
            else
              (case random_random g2 of (e2, g3) \<Rightarrow>
                 if e2 < 0.03 then
                   (case random_uniform 0.2 0.5 g3 of (c, g4) \<Rightarrow>
                      (\<lparr>hr_timestamp = timestamp, hr_bpm = hr,
                        hr_confidence = round_ndigits c 2\<rparr>, g4))
                 else
                   (case random_uniform 0.85 0.99 g3 of (c, g4) \<Rightarrow>
                      (\<lparr>hr_timestamp = timestamp, hr_bpm = hr,
                        hr_confidence = round_ndigits c 2\<rparr>, g4)))))"

text \<open>The \<open>while t < duration\<close> loop. Each emitted record is kept with the true elapsed
  time \<open>t\<close> of its tick, which the source does not store in the record.\<close>

function hr_loop ::
  "(int \<times> int) list \<Rightarrow> int \<Rightarrow> int \<Rightarrow> real \<Rightarrow> string \<Rightarrow>
   (real \<times> hr_record) list \<Rightarrow> real \<Rightarrow> rng \<Rightarrow> (real \<times> hr_record) list \<times> rng" where
  "hr_loop gaps duration start_time drift_rate pattern data t g =
     (if t < of_int duration then
        (case sample_emitted gaps 0.005 t g of (emit, g1) \<Rightarrow>
         (case (if emit then
                  (case heart_rate_record start_time drift_rate pattern t g1 of
                     (r, g2) \<Rightarrow> (data @ [(t, r)], g2))
                else (data, g1)) of (data', g2) \<Rightarrow>
          (case random_uniform 0.85 1.15 g2 of (step, g3) \<Rightarrow>
             hr_loop gaps duration start_time drift_rate pattern data' (t + step) g3)))
      else (data, g))"
  by pat_completeness auto

text \<open>\<open>generate_heart_rate_data\<close>; its parameter \<open>patient_id\<close> is not used by the source.
  \<open>generate_heart_rate_ticks\<close> is the same run with the tick time beside each record.\<close>

definition generate_heart_rate_ticks :: "config \<Rightarrow> rng \<Rightarrow> (real \<times> hr_record) list \<times> rng" where
  "generate_heart_rate_ticks config g =
     (let start_time = BASE_TIME + hr_offset config;
          duration = py_int (duration_hours config * 3600);
          gaps = hr_gaps config;
          (drift_rate, g1) = random_uniform (- 0.0001) 0.0001 g
      in hr_loop gaps duration start_time drift_rate (activity_pattern config) [] 0 g1)"

definition generate_heart_rate_data :: "config \<Rightarrow> rng \<Rightarrow> hr_record list \<times> rng" where
  "generate_heart_rate_data config g =
     (case generate_heart_rate_ticks config g of (ticks, g') \<Rightarrow> (map snd ticks, g'))"

subsection \<open>Movement stream\<close>

text \<open>The three axes of \<open>simulate_movement\<close> before rounding.\<close>

definition movement_axes :: "real \<Rightarrow> string \<Rightarrow> rng \<Rightarrow> (real \<times> real \<times> real) \<times> rng" where
  "movement_axes t_seconds pattern g =
     (let gravity = 9.81 in
      if pattern = ''exercise_session'' then
        (let normalized_t = t_seconds / (3 * 3600) in
         if 0.3 < normalized_t \<and> normalized_t < 0.7 then
           (let (ux, g1) = random_uniform (- 2) 2 g;
                (x, g2) = add_noise ux 0.5 g1;
                (uy, g3) = random_uniform (- 1) 1 g2;
                (y, g4) = add_noise (- gravity + uy) 0.1 g3;
                (uz, g5) = random_uniform (- 2) 2 g4;
                (z, g6) = add_noise uz 0.5 g5
            in ((x, y, z), g6))
         else
           (let (ux, g1) = random_uniform (- 0.2) 0.2 g;
                (x, g2) = add_noise ux 0.3 g1;
                (y, g3) = add_noise (- gravity) 0.01 g2;
                (uz, g4) = random_uniform (- 0.2) 0.2 g3;
                (z, g5) = add_noise uz 0.3 g4
            in ((x, y, z), g5)))
      else if pattern = ''morning_routine'' then
        (let (m, g1) = random_random g in
         if m < 0.1 then
           (let (ux, g2) = random_uniform (- 1) 1 g1;
                (x, g3) = add_noise ux 0.3 g2;
                (uz, g4) = random_uniform (- 1) 1 g3;
                (z, g5) = add_noise uz 0.3 g4;
                (y, g6) = add_noise (- gravity) 0.01 g5
            in ((x, y, z), g6))
         else
           (let (x, g2) = add_noise 0 0.1 g1;
                (z, g3) = add_noise 0 0.1 g2;
                (y, g4) = add_noise (- gravity) 0.01 g3
            in ((x, y, z), g4)))
      else
        (let (x, g1) = add_noise 0 0.05 g;
             (y, g2) = add_noise (- gravity) 0.005 g1;
             (z, g3) = add_noise 0 0.05 g2
         in ((x, y, z), g3)))"

definition simulate_movement ::
  "real \<Rightarrow> string \<Rightarrow> rng \<Rightarrow> (real \<times> real \<times> real \<times> real) \<times> rng" where
  "simulate_movement t_seconds pattern g =
     (let ((x, y, z), g') = movement_axes t_seconds pattern g;
          magnitude = sqrt (x\<^sup>2 + y\<^sup>2 + z\<^sup>2)
      in ((round_ndigits x 3, round_ndigits y 3, round_ndigits z 3,
           round_ndigits magnitude 3), g'))"

text \<open>An entry of \<open>movement.json\<close>; \<open>None\<close> is the JSON \<open>null\<close>, which only \<open>x\<close> and
  \<open>magnitude\<close> can hold.\<close>

record movement_record =
  mv_ts :: int
  mv_x :: "real option"
  mv_y :: real
  mv_z :: real
  mv_magnitude :: "real option"

text \<open>\<open>datetime.timestamp()\<close>: seconds since the epoch.\<close>

definition datetime_timestamp :: "int \<Rightarrow> real" where
  "datetime_timestamp dt = of_int dt / 1000000"

definition movement_record :: "int \<Rightarrow> string \<Rightarrow> real \<Rightarrow> rng \<Rightarrow> movement_record \<times> rng" where
  "movement_record start_time pattern t g =
     (let timestamp_ms = py_int (datetime_timestamp (start_time + timedelta_seconds t) * 1000);
          ((x, y, z, mag), g1) = simulate_movement t pattern g;
          rec = \<lparr>mv_ts = timestamp_ms, mv_x = Some x, mv_y = y, mv_z = z,
                 mv_magnitude = Some mag\<rparr>;
          (e1, g2) = random_random g1
      in if e1 < 0.004 then (rec\<lparr>mv_x := None, mv_magnitude := None\<rparr>, g2)
         else
           (let (e2, g3) = random_random g2 in
            if e2 < 0.002 then
              (rec\<lparr>mv_x := Some 999.99, mv_y := 999.99, mv_z := 999.99,
                   mv_magnitude := Some 999.99\<rparr>, g3)
            else (rec, g3)))"

function movement_loop ::
  "(int \<times> int) list \<Rightarrow> int \<Rightarrow> int \<Rightarrow> string \<Rightarrow>
   (real \<times> movement_record) list \<Rightarrow> real \<Rightarrow> rng \<Rightarrow> (real \<times> movement_record) list \<times> rng" where
  "movement_loop gaps duration start_time pattern data t g =
     (if t < of_int duration then
        (case sample_emitted gaps 0.003 t g of (emit, g1) \<Rightarrow>
         (case (if emit then
                  (case movement_record start_time pattern t g1 of
                     (r, g2) \<Rightarrow> (data @ [(t, r)], g2))
                else (data, g1)) of (data', g2) \<Rightarrow>
          (case random_uniform 0.08 0.12 g2 of (step, g3) \<Rightarrow>
             movement_loop gaps duration start_time pattern data' (t + step) g3)))
      else (data, g))"
  by pat_completeness auto

definition generate_movement_ticks ::
  "config \<Rightarrow> rng \<Rightarrow> (real \<times> movement_record) list \<times> rng" where
  "generate_movement_ticks config g =
     (let start_time = BASE_TIME + movement_offset config;
          duration = py_int (duration_hours config * 3600);
          gaps = movement_gaps config
      in movement_loop gaps duration start_time (activity_pattern config) [] 0 g)"

definition generate_movement_data :: "config \<Rightarrow> rng \<Rightarrow> movement_record list \<times> rng" where
  "generate_movement_data config g =
     (case generate_movement_ticks config g of (ticks, g') \<Rightarrow> (map snd ticks, g'))"

subsection \<open>Blood oxygen stream\<close>

definition simulate_spo2 :: "real \<Rightarrow> string \<Rightarrow> rng \<Rightarrow> real \<times> rng" where
  "simulate_spo2 t_seconds pattern g =
     (let (base_spo2, g1) =
            (if pattern = ''exercise_session'' then
               (let normalized_t = t_seconds / (3 * 3600) in
                if 0.3 < normalized_t \<and> normalized_t < 0.7 then
                  (let (u, g') = random_uniform (- 1) 1 g in (96 + u, g'))
                else
                  (let (u, g') = random_uniform (- 0.5) 0.5 g in (98 + u, g')))
             else
               (let (u, g') = random_uniform (- 1) 1 g in (98 + u, g')));
          (v, g2) = add_noise base_spo2 0.01 g1
      in (round_ndigits (max 90 (min 100 v)) 1, g2))"

text \<open>A row of \<open>blood_oxygen.csv\<close>.\<close>

record spo2_record =
  bo_time :: int
  bo_spo2 :: real
  bo_pulse_quality :: string

definition blood_oxygen_record :: "int \<Rightarrow> string \<Rightarrow> real \<Rightarrow> rng \<Rightarrow> spo2_record \<times> rng" where
  "blood_oxygen_record start_time pattern t g =
     (let timestamp_sec = py_int (datetime_timestamp (start_time + timedelta_seconds t));
          (spo2, g1) = simulate_spo2 t pattern g;
          quality = (if 97 \<le> spo2 then ''good'' else if 94 \<le> spo2 then ''fair'' else ''poor'');
          (e1, g2) = random_random g1
      in if e1 < 0.005 then
           (let (v, g3) = random_uniform 65 84 g2 in
            (\<lparr>bo_time = timestamp_sec, bo_spo2 = round_ndigits v 1,
              bo_pulse_quality = ''poor''\<rparr>, g3))
         else
           (let (e2, g3) = random_random g2 in
            if e2 < 0.003 then
              (let (v, g4) = random_uniform 101 110 g3 in
               (\<lparr>bo_time = timestamp_sec, bo_spo2 = round_ndigits v 1,
                 bo_pulse_quality = ''poor''\<rparr>, g4))
            else
              (\<lparr>bo_time = timestamp_sec, bo_spo2 = spo2, bo_pulse_quality = quality\<rparr>, g3)))"

function blood_oxygen_loop ::
  "(int \<times> int) list \<Rightarrow> int \<Rightarrow> int \<Rightarrow> string \<Rightarrow>
   (real \<times> spo2_record) list \<Rightarrow> real \<Rightarrow> rng \<Rightarrow> (real \<times> spo2_record) list \<times> rng" where
  "blood_oxygen_loop gaps duration start_time pattern data t g =
     (if t < of_int duration then
        (case sample_emitted gaps 0.01 t g of (emit, g1) \<Rightarrow>
         (case (if emit then
                  (case blood_oxygen_record start_time pattern t g1 of
                     (r, g2) \<Rightarrow> (data @ [(t, r)], g2))
                else (data, g1)) of (data', g2) \<Rightarrow>
          (case random_uniform 1.5 2.5 g2 of (step, g3) \<Rightarrow>
             blood_oxygen_loop gaps duration start_time pattern data' (t + step) g3)))
      else (data, g))"
  by pat_completeness auto

definition generate_blood_oxygen_ticks ::
  "config \<Rightarrow> rng \<Rightarrow> (real \<times> spo2_record) list \<times> rng" where
  "generate_blood_oxygen_ticks config g =
     (let start_time = BASE_TIME + spo2_offset config;
          duration = py_int (duration_hours config * 3600);
          gaps = spo2_gaps config
      in blood_oxygen_loop gaps duration start_time (activity_pattern config) [] 0 g)"

definition generate_blood_oxygen_data :: "config \<Rightarrow> rng \<Rightarrow> spo2_record list \<times> rng" where
  "generate_blood_oxygen_data config g =
     (case generate_blood_oxygen_ticks config g of (ticks, g') \<Rightarrow> (map snd ticks, g'))"

subsection \<open>Skin temperature stream\<close>

definition simulate_temperature :: "real \<Rightarrow> string \<Rightarrow> rng \<Rightarrow> real \<times> rng" where
  "simulate_temperature t_seconds pattern g =
     (let base_temp =
            (if pattern = ''exercise_session'' then
               (let normalized_t = t_seconds / (3 * 3600) in
                if 0.3 < normalized_t then 36.5 + min 1.5 ((normalized_t - 0.3) * 3)
                else 36.5)
             else 36.5);
          (v, g') = add_noise base_temp 0.005 g
      in (round_ndigits v 2, g'))"

text \<open>A row of \<open>skin_temperature.csv\<close>. \<open>st_recorded_at\<close> is the datetime whose
  \<open>isoformat()\<close> the source stores; \<open>astimezone\<close> does not change the instant.\<close>

record temperature_record =
  st_recorded_at :: int
  st_temp_celsius :: real
  st_ambient_temp :: real

text \<open>The body of the loop for an emitted tick; it also updates \<open>ambient_temp\<close>.\<close>

definition temperature_record ::
  "int \<Rightarrow> string \<Rightarrow> real \<Rightarrow> real \<Rightarrow> rng \<Rightarrow> (temperature_record \<times> real) \<times> rng" where
  "temperature_record start_time pattern ambient_temp t g =
     (let timestamp = start_time + timedelta_seconds t;
          (temp, g1) = simulate_temperature t pattern g;
          (e1, g2) = random_random g1;
          (temp', g3) =
            (if e1 < 0.015 then
               (let (s, g') = random_uniform 3 8 g2 in (round_ndigits (temp + s) 2, g'))
             else
               (let (e2, g') = random_random g2 in
                if e2 < 0.01 then
                  (let (s, g'') = random_uniform 2 5 g' in (round_ndigits (temp - s) 2, g''))
                else (temp, g')));
          (d, g4) = random_uniform (- 0.02) 0.02 g3;
          ambient_temp' = max 18 (min 28 (ambient_temp + d))
      in ((\<lparr>st_recorded_at = timestamp, st_temp_celsius = temp',
             st_ambient_temp = round_ndigits ambient_temp' 1\<rparr>, ambient_temp'), g4))"

function temperature_loop ::
  "(int \<times> int) list \<Rightarrow> int \<Rightarrow> int \<Rightarrow> string \<Rightarrow> (real \<times> temperature_record) list \<Rightarrow>
   real \<Rightarrow> real \<Rightarrow> rng \<Rightarrow> (real \<times> temperature_record) list \<times> rng" where
  "temperature_loop gaps duration start_time pattern data ambient_temp t g =
     (if t < of_int duration then
        (case sample_emitted gaps 0.015 t g of (emit, g1) \<Rightarrow>
         (case (if emit then
                  (case temperature_record start_time pattern ambient_temp t g1 of
                     ((r, ambient_temp'), g2) \<Rightarrow> ((data @ [(t, r)], ambient_temp'), g2))
                else ((data, ambient_temp), g1)) of ((data', ambient_temp'), g2) \<Rightarrow>
          (case random_uniform 8 14 g2 of (step, g3) \<Rightarrow>
             temperature_loop gaps duration start_time pattern data' ambient_temp'
               (t + step) g3)))
      else (data, g))"
  by pat_completeness auto

definition generate_temperature_ticks ::
  "config \<Rightarrow> rng \<Rightarrow> (real \<times> temperature_record) list \<times> rng" where
  "generate_temperature_ticks config g =
     (let start_time = BASE_TIME + temp_offset config;
          extra_duration = \<bar>total_seconds (temp_offset config)\<bar> + 600;
          duration = py_int (duration_hours config * 3600 + extra_duration);
          gaps = temp_gaps config;
          (a, g1) = random_uniform 20 24 g;
          ambient_temp = round_ndigits a 1
      in temperature_loop gaps duration start_time (activity_pattern config) [] ambient_temp 0 g1)"

definition generate_temperature_data :: "config \<Rightarrow> rng \<Rightarrow> temperature_record list \<times> rng" where
  "generate_temperature_data config g =
     (case generate_temperature_ticks config g of (ticks, g') \<Rightarrow> (map snd ticks, g'))"

subsection \<open>Physical load stream\<close>

text \<open>\<open>int\<close> is the identity on the integer sums of the second and the last branch.\<close>

definition simulate_load :: "real \<Rightarrow> int \<Rightarrow> string \<Rightarrow> rng \<Rightarrow> int \<times> rng" where
  "simulate_load t_seconds hr pattern g =
     (if pattern = ''exercise_session'' then
        (let normalized_t = t_seconds / (3 * 3600) in
         if 0.3 < normalized_t \<and> normalized_t < 0.7 then
           (let (k, g') = random_randint (- 5) 5 g in
            (min 100 (max 0 (py_int (50 + (of_int hr - 100) * 0.5 + of_int k))), g'))
         else
           (let (k, g') = random_randint (- 5) 5 g in (max 0 (20 + k), g')))
      else if pattern = ''morning_routine'' then
        (let (k, g') = random_randint (- 3) 3 g in
         (max 0 (min 100 (py_int (25 + (of_int hr - 70) * 0.3 + of_int k))), g'))
      else
        (let (k, g') = random_randint (- 3) 3 g in (max 0 (10 + k), g')))"

text \<open>The three renderings of the timestamp of a load entry, each with the whole second
  it prints (\<open>strftime\<close> drops the microseconds); the second one appends three random
  digits.\<close>

datatype load_timestamp =
  IsoSeconds int
  | IsoMillis int int
  | SlashSeconds int

record load_record =
  ld_timestamp :: load_timestamp
  ld_load_score :: int
  ld_activity_type :: string
  ld_hr_derived :: bool

definition load_record :: "int \<Rightarrow> string \<Rightarrow> real \<Rightarrow> rng \<Rightarrow> load_record \<times> rng" where
  "load_record start_time pattern t g =
     (let (hr, g1) = simulate_heart_rate t pattern g;
          (load, g2) = simulate_load t hr pattern g1;
          timestamp = start_time + timedelta_seconds t;
          (rand, g3) = random_random g2;
          (ts_str, g4) =
            (if rand < 0.3 then (IsoSeconds (timestamp div 1000000), g3)
             else if rand < 0.6 then
               (let (ms, g') = random_randint 0 999 g3 in
                (IsoMillis (timestamp div 1000000) ms, g'))
             else (SlashSeconds (timestamp div 1000000), g3));
          activity = (if load < 20 then ''rest'' else if load < 50 then ''walk''
                      else ''exercise'');
          (e, g5) = random_random g4;
          (load', activity') = (if e < 0.015 then (- 1, ''unknown'') else (load, activity));
          (h, g6) = random_random g5
      in (\<lparr>ld_timestamp = ts_str, ld_load_score = load', ld_activity_type = activity',
            ld_hr_derived = (h < 0.7)\<rparr>, g6))"

function load_loop ::
  "(int \<times> int) list \<Rightarrow> int \<Rightarrow> int \<Rightarrow> string \<Rightarrow>
   (real \<times> load_record) list \<Rightarrow> real \<Rightarrow> rng \<Rightarrow> (real \<times> load_record) list \<times> rng" where
  "load_loop gaps duration start_time pattern data t g =
     (if t < of_int duration then
        (case sample_emitted gaps 0.012 t g of (emit, g1) \<Rightarrow>
         (case (if emit then
                  (case load_record start_time pattern t g1 of
                     (r, g2) \<Rightarrow> (data @ [(t, r)], g2))
                else (data, g1)) of (data', g2) \<Rightarrow>
          (case random_uniform 4 6 g2 of (step, g3) \<Rightarrow>
             load_loop gaps duration start_time pattern data' (t + step) g3)))
      else (data, g))"
  by pat_completeness auto

definition generate_load_ticks :: "config \<Rightarrow> rng \<Rightarrow> (real \<times> load_record) list \<times> rng" where
  "generate_load_ticks config g =
     (let start_time = BASE_TIME + load_offset config;
          duration = py_int (duration_hours config * 3600);
          gaps = load_gaps config
      in load_loop gaps duration start_time (activity_pattern config) [] 0 g)"

definition generate_load_data :: "config \<Rightarrow> rng \<Rightarrow> load_record list \<times> rng" where
  "generate_load_data config g =
     (case generate_load_ticks config g of (ticks, g') \<Rightarrow> (map snd ticks, g'))"

subsection \<open>Patient orchestrator\<close>

text \<open>What \<open>main\<close> hands to \<open>save_csv\<close> and \<open>save_json\<close> for one patient.\<close>

record patient_data =
  pd_patient_id :: string
  pd_heart_rate :: "hr_record list"
  pd_movement :: "movement_record list"
  pd_blood_oxygen :: "spo2_record list"
  pd_skin_temperature :: "temperature_record list"
  pd_load :: "load_record list"

text \<open>The body of the \<open>for\<close> loop of \<open>main\<close>: the five generators in the order of the
  source, on the one shared random state.\<close>

definition generate_patient :: "string \<Rightarrow> config \<Rightarrow> rng \<Rightarrow> patient_data \<times> rng" where
  "generate_patient patient_id config g =
     (let (hr_data, g1) = generate_heart_rate_data config g;
          (movement_data, g2) = generate_movement_data config g1;
          (spo2_data, g3) = generate_blood_oxygen_data config g2;
          (temp_data, g4) = generate_temperature_data config g3;
          (load_data, g5) = generate_load_data config g4
      in (\<lparr>pd_patient_id = patient_id, pd_heart_rate = hr_data,
            pd_movement = movement_data, pd_blood_oxygen = spo2_data,
            pd_skin_temperature = temp_data, pd_load = load_data\<rparr>, g5))"

fun generate_patients :: "(string \<times> config) list \<Rightarrow> rng \<Rightarrow> patient_data list \<times> rng" where
  "generate_patients [] g = ([], g)"
| "generate_patients ((patient_id, config) # rest) g =
     (case generate_patient patient_id config g of (d, g1) \<Rightarrow>
        (case generate_patients rest g1 of (ds, g2) \<Rightarrow> (d # ds, g2)))"

text \<open>\<open>main\<close> iterates over the global \<open>PATIENT_CONFIGS\<close>, here its parameter
  \<open>configs\<close>. A run of the script seeds the generator with 42 when the module is loaded,
  then calls \<open>main\<close>; \<open>g0\<close> is the state of the generator when the process starts.\<close>

definition main :: "(string \<times> config) list \<Rightarrow> rng \<Rightarrow> patient_data list" where
  "main configs g = fst (generate_patients configs g)"

definition run_script :: "(int \<Rightarrow> rng) \<Rightarrow> rng \<Rightarrow> patient_data list" where
  "run_script init g0 = main PATIENT_CONFIGS (random_seed init 42 g0)"

section \<open>Notions used in the statements\<close>

text \<open>The invariant of every \<open>while t < duration\<close> loop, on the records emitted so far with
  their tick times: the ticks are at least \<open>lo\<close> apart and at least \<open>lo\<close> before the
  current time \<open>t\<close>, they lie in \<open>[0, duration)\<close>, and none of them is in a gap.\<close>

definition ticks_ok ::
  "real \<Rightarrow> real \<Rightarrow> (int \<times> int) list \<Rightarrow> real \<Rightarrow> (real \<times> 'r) list \<Rightarrow> bool" where
  "ticks_ok lo duration gaps t data \<longleftrightarrow>
     sorted_wrt (\<lambda>a b. fst a + lo \<le> fst b) data \<and>
     (\<forall>x\<in>set data. 0 \<le> fst x \<and> fst x + lo \<le> t \<and> fst x < duration \<and>
        \<not> is_in_gap (fst x) gaps)"

text \<open>A configuration of two seconds, with a gap that swallows the second heart-rate
  tick.\<close>

definition witness_config :: config where
  "witness_config = \<lparr>
     hr_offset = 0, movement_offset = 0, spo2_offset = 0, temp_offset = 0, load_offset = 0,
     duration_hours = 2 / 3600,
     activity_pattern = ''resting'',
     hr_gaps = [(1, 1)], movement_gaps = [(1, 1)], spo2_gaps = [(2, 5)],
     temp_gaps = [(3000, 180)], load_gaps = [(900, 480)] \<rparr>"

text \<open>Generator states for the movement and the temperature channel: the draws of the
  first tick, then draws that are all dropouts.\<close>

definition witness_movement_rng :: rng where
  "witness_movement_rng = [1 / 2, 0, 0, 0, 1 / 2, 1 / 2, 1 / 2] @- sconst (1 / 1000)"

definition witness_temperature_rng :: rng where
  "witness_temperature_rng = [1 / 2, 1 / 2, 0, 1 / 2, 1 / 2, 1 / 2, 1 / 2] @- sconst (1 / 1000)"

text \<open>The value of the variable \<open>duration\<close> in the generators: the same for four channels,
  longer for the temperature channel.\<close>

definition session_duration :: "config \<Rightarrow> int" where
  "session_duration config = py_int (duration_hours config * 3600)"

definition temperature_duration :: "config \<Rightarrow> int" where
  "temperature_duration config =
     (let extra_duration = \<bar>total_seconds (temp_offset config)\<bar> + 600
      in py_int (duration_hours config * 3600 + extra_duration))"

text \<open>What the elapsed-time claim says of the emitted records of one channel, given with
  their tick times: the times increase by at least the smallest step \<open>lo\<close>, they lie in
  \<open>[0, duration)\<close>, and there are at most \<open>duration / lo\<close> records, rounded up.\<close>

definition ticks_bounded :: "real \<Rightarrow> int \<Rightarrow> (real \<times> 'r) list \<Rightarrow> bool" where
  "ticks_bounded lo duration ticks \<longleftrightarrow>
     sorted_wrt (\<lambda>s t. s + lo \<le> t) (map fst ticks) \<and>
     (\<forall>(t, r)\<in>set ticks. 0 \<le> t \<and> t < of_int duration) \<and>
     length ticks \<le> nat \<lceil>of_int duration / lo\<rceil>"

text \<open>A tick outside every gap, gap by gap.\<close>

definition gap_free :: "(int \<times> int) list \<Rightarrow> (real \<times> 'r) list \<Rightarrow> bool" where
  "gap_free gaps ticks \<longleftrightarrow>
     (\<forall>(t, r)\<in>set ticks. \<forall>(gap_start, gap_duration)\<in>set gaps.
        \<not> (of_int gap_start \<le> t \<and> t < of_int gap_start + of_int gap_duration))"

text \<open>What a heart-rate record holds besides its timestamp.\<close>

definition hr_reading :: "real \<times> hr_record \<Rightarrow> real \<times> int \<times> real" where
  "hr_reading = (\<lambda>(t, r). (t, hr_bpm r, hr_confidence r))"

text \<open>A generator state whose first blood-oxygen tick takes the second error branch, the
  impossibly high reading.\<close>

definition high_reading_rng :: rng where
  "high_reading_rng = [1 / 2, 1 / 2, 0, 1 / 2, 0, 1 / 2] @- sconst (1 / 2)"

text \<open>The exercise patient with a session of one hour instead of three.\<close>

definition one_hour_exercise :: config where
  "one_hour_exercise = patient_002\<lparr>duration_hours := 1\<rparr>"

text \<open>A configuration with a negative duration.\<close>

definition negative_duration_config :: config where
  "negative_duration_config = witness_config\<lparr>duration_hours := - 1\<rparr>"




text \<open>A blood-oxygen channel that starts three quarters of a second before the Unix epoch,
  and a generator state whose first step is the smallest one, 1.5 seconds.\<close>

definition epoch_config :: config where
  "epoch_config = witness_config\<lparr>spo2_offset := - BASE_TIME - 750000, spo2_gaps := []\<rparr>"

definition epoch_rng :: rng where
  "epoch_rng = [1 / 2, 1 / 2, 0, 1 / 2, 1 / 2, 0] @- sconst (1 / 2)"



text \<open>The branch of the \<open>if\<close> / \<open>elif\<close> after \<open>simulate_spo2\<close> that a tick of
  \<open>generate_blood_oxygen_data\<close> takes when its body starts in state \<open>g\<close>: the first error
  branch (a clearly wrong low value), the second (an impossibly high value), or neither.\<close>

datatype spo2_branch = Reading | ErroneousLow | ImpossibleHigh

definition blood_oxygen_branch :: "real \<Rightarrow> string \<Rightarrow> rng \<Rightarrow> spo2_branch" where
  "blood_oxygen_branch t pattern g =
     (let (spo2, g1) = simulate_spo2 t pattern g;
          (e1, g2) = random_random g1
      in if e1 < 0.005 then ErroneousLow
         else
           (let (e2, g3) = random_random g2 in
            if e2 < 0.003 then ImpossibleHigh else Reading))"

section \<open>Properties of the generators\<close>

subsection \<open>Termination of the loops\<close>

text \<open>The ranges of the draws.\<close>

lemma random_random_range: "0 \<le> fst (random_random g) \<and> fst (random_random g) < 1"
  by (simp add: random_random_def frac_lt_1)

lemma random_uniform_range:
  assumes "a \<le> b"
  shows "a \<le> fst (random_uniform a b g) \<and> fst (random_uniform a b g) \<le> b"
proof -
  obtain u g' where u: "random_random g = (u, g')"
    by (cases "random_random g")
  with random_random_range [of g] have r: "0 \<le> u" "u < 1"
    by simp_all
  have "0 \<le> (b - a) * u"
    using assms r by simp
  moreover have "(b - a) * u \<le> (b - a) * 1"
    using assms r by (intro mult_left_mono) simp_all
  ultimately show ?thesis
    by (simp add: random_uniform_def u)
qed

text \<open>A tick that advances by at least \<open>lo\<close> brings the loop closer to its end.\<close>

lemma tick_measure:
  fixes d t step lo :: real
  assumes "0 < lo" "lo \<le> step" "t < d"
  shows "nat \<lceil>(d - (t + step)) / lo\<rceil> < nat \<lceil>(d - t) / lo\<rceil>"
proof -
  have "(d - (t + step)) / lo \<le> (d - t) / lo - 1"
    using assms by (simp add: field_simps)
  then have "\<lceil>(d - (t + step)) / lo\<rceil> \<le> \<lceil>(d - t) / lo - 1\<rceil>"
    by (rule ceiling_mono)
  also have "\<dots> = \<lceil>(d - t) / lo\<rceil> - 1"
    by simp
  finally have le: "\<lceil>(d - (t + step)) / lo\<rceil> \<le> \<lceil>(d - t) / lo\<rceil> - 1" .
  have "0 < (d - t) / lo"
    using assms by simp
  then have "0 < \<lceil>(d - t) / lo\<rceil>"
    by (simp add: ceiling_less_iff)
  with le show ?thesis
    by linarith
qed

termination hr_loop
proof (relation "measure (\<lambda>(gaps, duration, start_time, drift_rate, pattern, data, t, g).
          nat \<lceil>(of_int duration - t) / 0.85\<rceil>)", goal_cases)
  case 1
  show ?case by simp
next
  case (2 gaps duration start_time drift_rate pattern data t g emit g1 data' g2 step g3)
  have "0.85 \<le> fst (random_uniform 0.85 1.15 g2)"
    using random_uniform_range [of "0.85" "1.15" g2] by simp
  with 2 have "0.85 \<le> step"
    by (metis fst_conv)
  with 2(1) show ?case
    using tick_measure [of "0.85" step t "of_int duration"] by simp
qed

declare hr_loop.simps [simp del]

termination movement_loop
proof (relation "measure (\<lambda>(gaps, duration, start_time, pattern, data, t, g).
          nat \<lceil>(of_int duration - t) / 0.08\<rceil>)", goal_cases)
  case 1
  show ?case by simp
next
  case (2 gaps duration start_time pattern data t g emit g1 data' g2 step g3)
  have "0.08 \<le> fst (random_uniform 0.08 0.12 g2)"
    using random_uniform_range [of "0.08" "0.12" g2] by simp
  with 2 have "0.08 \<le> step"
    by (metis fst_conv)
  with 2(1) show ?case
    using tick_measure [of "0.08" step t "of_int duration"] by simp
qed

declare movement_loop.simps [simp del]

termination blood_oxygen_loop
proof (relation "measure (\<lambda>(gaps, duration, start_time, pattern, data, t, g).
          nat \<lceil>(of_int duration - t) / 1.5\<rceil>)", goal_cases)
  case 1
  show ?case by simp
next
  case (2 gaps duration start_time pattern data t g emit g1 data' g2 step g3)
  have "1.5 \<le> fst (random_uniform 1.5 2.5 g2)"
    using random_uniform_range [of "1.5" "2.5" g2] by simp
  with 2 have "1.5 \<le> step"
    by (metis fst_conv)
  with 2(1) show ?case
    using tick_measure [of "1.5" step t "of_int duration"] by simp
qed

declare blood_oxygen_loop.simps [simp del]

termination temperature_loop
proof (relation "measure (\<lambda>(gaps, duration, start_time, pattern, data, ambient_temp, t, g).
          nat \<lceil>(of_int duration - t) / 8\<rceil>)", goal_cases)
  case 1
  show ?case by simp
next
  case (2 gaps duration start_time pattern data ambient_temp t g emit g1 da g2 data'
      ambient_temp' step g3)
  have "8 \<le> fst (random_uniform 8 14 g2)"
    using random_uniform_range [of 8 14 g2] by simp
  with 2 have "8 \<le> step"
    by (metis fst_conv)
  with 2(1) show ?case
    using tick_measure [of 8 step t "of_int duration"] by simp
qed

declare temperature_loop.simps [simp del]

termination load_loop
proof (relation "measure (\<lambda>(gaps, duration, start_time, pattern, data, t, g).
          nat \<lceil>(of_int duration - t) / 4\<rceil>)", goal_cases)
  case 1
  show ?case by simp
next
  case (2 gaps duration start_time pattern data t g emit g1 data' g2 step g3)
  have "4 \<le> fst (random_uniform 4 6 g2)"
    using random_uniform_range [of 4 6 g2] by simp
  with 2 have "4 \<le> step"
    by (metis fst_conv)
  with 2(1) show ?case
    using tick_measure [of 4 step t "of_int duration"] by simp
qed

declare load_loop.simps [simp del]

subsection \<open>Rounding and truncation\<close>

lemma py_round_of_int: "py_round (of_int k) = k"
  by (simp add: py_round_def)

lemma py_round_floor: "\<lfloor>x\<rfloor> \<le> py_round x \<and> py_round x \<le> \<lfloor>x\<rfloor> + 1"
  by (simp add: py_round_def Let_def)

lemma py_round_near: "\<bar>of_int (py_round x) - x\<bar> \<le> 1 / 2"
proof -
  have "of_int \<lfloor>x\<rfloor> \<le> x" "x < of_int \<lfloor>x\<rfloor> + 1"
    by linarith+
  then show ?thesis
    by (auto simp: py_round_def Let_def)
qed

lemma py_round_ge:
  assumes "of_int k \<le> x"
  shows "k \<le> py_round x"
proof -
  have "k \<le> \<lfloor>x\<rfloor>"
    using assms by (simp add: le_floor_iff)
  then show ?thesis
    using py_round_floor [of x] by linarith
qed

lemma py_round_le:
  assumes "x \<le> of_int k"
  shows "py_round x \<le> k"
proof (cases "x = of_int k")
  case True
  then show ?thesis
    by (simp add: py_round_of_int)
next
  case False
  with assms have "x < of_int k"
    by simp
  then have "\<lfloor>x\<rfloor> < k"
    by (simp add: floor_less_iff)
  then show ?thesis
    using py_round_floor [of x] by linarith
qed

text \<open>Two numbers more than one apart keep their order when rounded.\<close>

lemma py_round_strict:
  assumes "x + 1 < y"
  shows "py_round x < py_round y"
proof -
  have "real_of_int (py_round x) < of_int (py_round y)"
    using py_round_near [of x] py_round_near [of y] assms by linarith
  then show ?thesis
    by simp
qed

lemma round_ndigits_range:
  assumes "of_int a / 10 ^ n \<le> x" "x \<le> of_int b / 10 ^ n"
  shows "of_int a / 10 ^ n \<le> round_ndigits x n \<and> round_ndigits x n \<le> of_int b / 10 ^ n"
proof -
  have "of_int a \<le> x * 10 ^ n" "x * 10 ^ n \<le> of_int b"
    using assms by (simp_all add: field_simps)
  then have "a \<le> py_round (x * 10 ^ n)" "py_round (x * 10 ^ n) \<le> b"
    by (simp_all add: py_round_ge py_round_le)
  then show ?thesis
    by (simp add: round_ndigits_def divide_le_cancel)
qed

lemma py_int_near: "\<bar>of_int (py_int x) - x\<bar> < 1"
  unfolding py_int_def by (cases "0 \<le> x") (simp_all, linarith+)

lemma py_int_strict:
  assumes "x + 2 \<le> y"
  shows "py_int x < py_int y"
proof -
  have "real_of_int (py_int x) < of_int (py_int y)"
    using py_int_near [of x] py_int_near [of y] assms by linarith
  then show ?thesis
    by simp
qed

lemma py_int_nonpos:
  assumes "x \<le> 0"
  shows "py_int x \<le> 0"
  using assms by (simp add: py_int_def ceiling_le_iff)

subsection \<open>The ticks of a loop\<close>

lemma is_in_gap_iff:
  "is_in_gap t gaps \<longleftrightarrow>
     (\<exists>(gap_start, gap_duration)\<in>set gaps.
        of_int gap_start \<le> t \<and> t < of_int gap_start + of_int gap_duration)"
  by (induction gaps) auto

lemma sample_emitted_gap:
  assumes "sample_emitted gaps p t g = (True, g1)"
  shows "\<not> is_in_gap t gaps"
  using assms by (auto simp: sample_emitted_def split: if_splits)

lemma ticks_ok_Nil: "ticks_ok lo duration gaps t []"
  by (simp add: ticks_ok_def)

lemma ticks_ok_step:
  assumes "ticks_ok lo duration gaps t data" "0 \<le> step"
  shows "ticks_ok lo duration gaps (t + step) data"
  using assms unfolding ticks_ok_def by fastforce

lemma ticks_ok_emit:
  assumes "ticks_ok lo duration gaps t data" "0 \<le> t" "t < duration" "\<not> is_in_gap t gaps"
    and "lo \<le> step" "0 \<le> lo"
  shows "ticks_ok lo duration gaps (t + step) (data @ [(t, r)])"
  using assms unfolding ticks_ok_def by (fastforce simp: sorted_wrt_append)

lemma hr_loop_inv:
  assumes "ticks_ok 0.85 (of_int duration) gaps t data" "0 \<le> t"
    and "\<forall>(s, r)\<in>set data. \<exists>g'. r = fst (heart_rate_record start_time drift_rate pattern s g')"
  shows "\<exists>t'. ticks_ok 0.85 (of_int duration) gaps t'
            (fst (hr_loop gaps duration start_time drift_rate pattern data t g)) \<and>
         (\<forall>(s, r)\<in>set (fst (hr_loop gaps duration start_time drift_rate pattern data t g)).
            \<exists>g'. r = fst (heart_rate_record start_time drift_rate pattern s g'))"
  using assms
proof (induction gaps duration start_time drift_rate pattern data t g rule: hr_loop.induct)
  case (1 gaps duration start_time drift_rate pattern data t g)
  show ?case
  proof (cases "t < of_int duration")
    case False
    with 1(2,4) show ?thesis
      by (subst (1 2) hr_loop.simps) auto
  next
    case True
    obtain emit g1 where se: "sample_emitted gaps 0.005 t g = (emit, g1)"
      by (cases "sample_emitted gaps 0.005 t g")
    show ?thesis
    proof (cases emit)
      case False
      obtain step g3 where st: "random_uniform 0.85 1.15 g1 = (step, g3)"
        by (cases "random_uniform 0.85 1.15 g1")
      have lo: "0.85 \<le> step"
        using random_uniform_range [of "0.85" "1.15" g1] st by simp
      have "ticks_ok 0.85 (of_int duration) gaps (t + step) data"
        using 1(2) lo by (intro ticks_ok_step) simp_all
      moreover have "0 \<le> t + step"
        using 1(3) lo by simp
      ultimately have "\<exists>t'. ticks_ok 0.85 (of_int duration) gaps t'
            (fst (hr_loop gaps duration start_time drift_rate pattern data (t + step) g3)) \<and>
         (\<forall>(s, r)\<in>set (fst (hr_loop gaps duration start_time drift_rate pattern data (t + step) g3)).
            \<exists>g'. r = fst (heart_rate_record start_time drift_rate pattern s g'))"
        using 1(1) [OF True se [symmetric] _ st [symmetric]] False 1(4) by simp
      then show ?thesis
        using True se False st by (subst (1 2) hr_loop.simps) simp
    next
      case emit: True
      obtain r g2 where rec: "heart_rate_record start_time drift_rate pattern t g1 = (r, g2)"
        by (cases "heart_rate_record start_time drift_rate pattern t g1")
      obtain step g3 where st: "random_uniform 0.85 1.15 g2 = (step, g3)"
        by (cases "random_uniform 0.85 1.15 g2")
      have lo: "0.85 \<le> step"
        using random_uniform_range [of "0.85" "1.15" g2] st by simp
      have "ticks_ok 0.85 (of_int duration) gaps (t + step) (data @ [(t, r)])"
        using 1(2,3) lo True sample_emitted_gap [of gaps _ t g g1] se emit
        by (intro ticks_ok_emit) simp_all
      moreover have "0 \<le> t + step"
        using 1(3) lo by simp
      moreover have "\<forall>(s, r)\<in>set (data @ [(t, r)]). \<exists>g'. r = fst (heart_rate_record start_time drift_rate pattern s g')"
        using 1(4) rec by (auto intro: exI [of _ g1])
      ultimately have "\<exists>t'. ticks_ok 0.85 (of_int duration) gaps t'
            (fst (hr_loop gaps duration start_time drift_rate pattern (data @ [(t, r)]) (t + step) g3)) \<and>
         (\<forall>(s, r)\<in>set (fst (hr_loop gaps duration start_time drift_rate pattern (data @ [(t, r)]) (t + step) g3)).
            \<exists>g'. r = fst (heart_rate_record start_time drift_rate pattern s g'))"
        using 1(1) [OF True se [symmetric] _ st [symmetric], of "data @ [(t, r)]"] emit rec
        by simp
      then show ?thesis
        using True se emit rec st by (subst (1 2) hr_loop.simps) simp
    qed
  qed
qed

lemma movement_loop_inv:
  assumes "ticks_ok 0.08 (of_int duration) gaps t data" "0 \<le> t"
    and "\<forall>(s, r)\<in>set data. \<exists>g'. r = fst (movement_record start_time pattern s g')"
  shows "\<exists>t'. ticks_ok 0.08 (of_int duration) gaps t'
            (fst (movement_loop gaps duration start_time pattern data t g)) \<and>
         (\<forall>(s, r)\<in>set (fst (movement_loop gaps duration start_time pattern data t g)).
            \<exists>g'. r = fst (movement_record start_time pattern s g'))"
  using assms
proof (induction gaps duration start_time pattern data t g rule: movement_loop.induct)
  case (1 gaps duration start_time pattern data t g)
  show ?case
  proof (cases "t < of_int duration")
    case False
    with 1(2,4) show ?thesis
      by (subst (1 2) movement_loop.simps) auto
  next
    case True
    obtain emit g1 where se: "sample_emitted gaps 0.003 t g = (emit, g1)"
      by (cases "sample_emitted gaps 0.003 t g")
    show ?thesis
    proof (cases emit)
      case False
      obtain step g3 where st: "random_uniform 0.08 0.12 g1 = (step, g3)"
        by (cases "random_uniform 0.08 0.12 g1")
      have lo: "0.08 \<le> step"
        using random_uniform_range [of "0.08" "0.12" g1] st by simp
      have "ticks_ok 0.08 (of_int duration) gaps (t + step) data"
        using 1(2) lo by (intro ticks_ok_step) simp_all
      moreover have "0 \<le> t + step"
        using 1(3) lo by simp
      ultimately have "\<exists>t'. ticks_ok 0.08 (of_int duration) gaps t'
            (fst (movement_loop gaps duration start_time pattern data (t + step) g3)) \<and>
         (\<forall>(s, r)\<in>set (fst (movement_loop gaps duration start_time pattern data (t + step) g3)).
            \<exists>g'. r = fst (movement_record start_time pattern s g'))"
        using 1(1) [OF True se [symmetric] _ st [symmetric]] False 1(4) by simp
      then show ?thesis
        using True se False st by (subst (1 2) movement_loop.simps) simp
    next
      case emit: True
      obtain r g2 where rec: "movement_record start_time pattern t g1 = (r, g2)"
        by (cases "movement_record start_time pattern t g1")
      obtain step g3 where st: "random_uniform 0.08 0.12 g2 = (step, g3)"
        by (cases "random_uniform 0.08 0.12 g2")
      have lo: "0.08 \<le> step"
        using random_uniform_range [of "0.08" "0.12" g2] st by simp
      have "ticks_ok 0.08 (of_int duration) gaps (t + step) (data @ [(t, r)])"
        using 1(2,3) lo True sample_emitted_gap [of gaps _ t g g1] se emit
        by (intro ticks_ok_emit) simp_all
      moreover have "0 \<le> t + step"
        using 1(3) lo by simp
      moreover have "\<forall>(s, r)\<in>set (data @ [(t, r)]). \<exists>g'. r = fst (movement_record start_time pattern s g')"
        using 1(4) rec by (auto intro: exI [of _ g1])
      ultimately have "\<exists>t'. ticks_ok 0.08 (of_int duration) gaps t'
            (fst (movement_loop gaps duration start_time pattern (data @ [(t, r)]) (t + step) g3)) \<and>
         (\<forall>(s, r)\<in>set (fst (movement_loop gaps duration start_time pattern (data @ [(t, r)]) (t + step) g3)).
            \<exists>g'. r = fst (movement_record start_time pattern s g'))"
        using 1(1) [OF True se [symmetric] _ st [symmetric], of "data @ [(t, r)]"] emit rec
        by simp
      then show ?thesis
        using True se emit rec st by (subst (1 2) movement_loop.simps) simp
    qed
  qed
qed

lemma blood_oxygen_loop_inv:
  assumes "ticks_ok 1.5 (of_int duration) gaps t data" "0 \<le> t"
    and "\<forall>(s, r)\<in>set data. \<exists>g'. r = fst (blood_oxygen_record start_time pattern s g')"
  shows "\<exists>t'. ticks_ok 1.5 (of_int duration) gaps t'
            (fst (blood_oxygen_loop gaps duration start_time pattern data t g)) \<and>
         (\<forall>(s, r)\<in>set (fst (blood_oxygen_loop gaps duration start_time pattern data t g)).
            \<exists>g'. r = fst (blood_oxygen_record start_time pattern s g'))"
  using assms
proof (induction gaps duration start_time pattern data t g rule: blood_oxygen_loop.induct)
  case (1 gaps duration start_time pattern data t g)
  show ?case
  proof (cases "t < of_int duration")
    case False
    with 1(2,4) show ?thesis
      by (subst (1 2) blood_oxygen_loop.simps) auto
  next
    case True
    obtain emit g1 where se: "sample_emitted gaps 0.01 t g = (emit, g1)"
      by (cases "sample_emitted gaps 0.01 t g")
    show ?thesis
    proof (cases emit)
      case False
      obtain step g3 where st: "random_uniform 1.5 2.5 g1 = (step, g3)"
        by (cases "random_uniform 1.5 2.5 g1")
      have lo: "1.5 \<le> step"
        using random_uniform_range [of "1.5" "2.5" g1] st by simp
      have "ticks_ok 1.5 (of_int duration) gaps (t + step) data"
        using 1(2) lo by (intro ticks_ok_step) simp_all
      moreover have "0 \<le> t + step"
        using 1(3) lo by simp
      ultimately have "\<exists>t'. ticks_ok 1.5 (of_int duration) gaps t'
            (fst (blood_oxygen_loop gaps duration start_time pattern data (t + step) g3)) \<and>
         (\<forall>(s, r)\<in>set (fst (blood_oxygen_loop gaps duration start_time pattern data (t + step) g3)).
            \<exists>g'. r = fst (blood_oxygen_record start_time pattern s g'))"
        using 1(1) [OF True se [symmetric] _ st [symmetric]] False 1(4) by simp
      then show ?thesis
        using True se False st by (subst (1 2) blood_oxygen_loop.simps) simp
    next
      case emit: True
      obtain r g2 where rec: "blood_oxygen_record start_time pattern t g1 = (r, g2)"
        by (cases "blood_oxygen_record start_time pattern t g1")
      obtain step g3 where st: "random_uniform 1.5 2.5 g2 = (step, g3)"
        by (cases "random_uniform 1.5 2.5 g2")
      have lo: "1.5 \<le> step"
        using random_uniform_range [of "1.5" "2.5" g2] st by simp
      have "ticks_ok 1.5 (of_int duration) gaps (t + step) (data @ [(t, r)])"
        using 1(2,3) lo True sample_emitted_gap [of gaps _ t g g1] se emit
        by (intro ticks_ok_emit) simp_all
      moreover have "0 \<le> t + step"
        using 1(3) lo by simp
      moreover have "\<forall>(s, r)\<in>set (data @ [(t, r)]). \<exists>g'. r = fst (blood_oxygen_record start_time pattern s g')"
        using 1(4) rec by (auto intro: exI [of _ g1])
      ultimately have "\<exists>t'. ticks_ok 1.5 (of_int duration) gaps t'
            (fst (blood_oxygen_loop gaps duration start_time pattern (data @ [(t, r)]) (t + step) g3)) \<and>
         (\<forall>(s, r)\<in>set (fst (blood_oxygen_loop gaps duration start_time pattern (data @ [(t, r)]) (t + step) g3)).
            \<exists>g'. r = fst (blood_oxygen_record start_time pattern s g'))"
        using 1(1) [OF True se [symmetric] _ st [symmetric], of "data @ [(t, r)]"] emit rec
        by simp
      then show ?thesis
        using True se emit rec st by (subst (1 2) blood_oxygen_loop.simps) simp
    qed
  qed
qed

lemma load_loop_inv:
  assumes "ticks_ok 4 (of_int duration) gaps t data" "0 \<le> t"
    and "\<forall>(s, r)\<in>set data. \<exists>g'. r = fst (load_record start_time pattern s g')"
  shows "\<exists>t'. ticks_ok 4 (of_int duration) gaps t'
            (fst (load_loop gaps duration start_time pattern data t g)) \<and>
         (\<forall>(s, r)\<in>set (fst (load_loop gaps duration start_time pattern data t g)).
            \<exists>g'. r = fst (load_record start_time pattern s g'))"
  using assms
proof (induction gaps duration start_time pattern data t g rule: load_loop.induct)
  case (1 gaps duration start_time pattern data t g)
  show ?case
  proof (cases "t < of_int duration")
    case False
    with 1(2,4) show ?thesis
      by (subst (1 2) load_loop.simps) auto
  next
    case True
    obtain emit g1 where se: "sample_emitted gaps 0.012 t g = (emit, g1)"
      by (cases "sample_emitted gaps 0.012 t g")
    show ?thesis
    proof (cases emit)
      case False
      obtain step g3 where st: "random_uniform 4 6 g1 = (step, g3)"
        by (cases "random_uniform 4 6 g1")
      have lo: "4 \<le> step"
        using random_uniform_range [of "4" "6" g1] st by simp
      have "ticks_ok 4 (of_int duration) gaps (t + step) data"
        using 1(2) lo by (intro ticks_ok_step) simp_all
      moreover have "0 \<le> t + step"
        using 1(3) lo by simp
      ultimately have "\<exists>t'. ticks_ok 4 (of_int duration) gaps t'
            (fst (load_loop gaps duration start_time pattern data (t + step) g3)) \<and>
         (\<forall>(s, r)\<in>set (fst (load_loop gaps duration start_time pattern data (t + step) g3)).
            \<exists>g'. r = fst (load_record start_time pattern s g'))"
        using 1(1) [OF True se [symmetric] _ st [symmetric]] False 1(4) by simp
      then show ?thesis
        using True se False st by (subst (1 2) load_loop.simps) simp
    next
      case emit: True
      obtain r g2 where rec: "load_record start_time pattern t g1 = (r, g2)"
        by (cases "load_record start_time pattern t g1")
      obtain step g3 where st: "random_uniform 4 6 g2 = (step, g3)"
        by (cases "random_uniform 4 6 g2")
      have lo: "4 \<le> step"
        using random_uniform_range [of "4" "6" g2] st by simp
      have "ticks_ok 4 (of_int duration) gaps (t + step) (data @ [(t, r)])"
        using 1(2,3) lo True sample_emitted_gap [of gaps _ t g g1] se emit
        by (intro ticks_ok_emit) simp_all
      moreover have "0 \<le> t + step"
        using 1(3) lo by simp
      moreover have "\<forall>(s, r)\<in>set (data @ [(t, r)]). \<exists>g'. r = fst (load_record start_time pattern s g')"
        using 1(4) rec by (auto intro: exI [of _ g1])
      ultimately have "\<exists>t'. ticks_ok 4 (of_int duration) gaps t'
            (fst (load_loop gaps duration start_time pattern (data @ [(t, r)]) (t + step) g3)) \<and>
         (\<forall>(s, r)\<in>set (fst (load_loop gaps duration start_time pattern (data @ [(t, r)]) (t + step) g3)).
            \<exists>g'. r = fst (load_record start_time pattern s g'))"
        using 1(1) [OF True se [symmetric] _ st [symmetric], of "data @ [(t, r)]"] emit rec
        by simp
      then show ?thesis
        using True se emit rec st by (subst (1 2) load_loop.simps) simp
    qed
  qed
qed

lemma temperature_loop_inv:
  assumes "ticks_ok 8 (of_int duration) gaps t data" "0 \<le> t"
  shows "\<exists>t'. ticks_ok 8 (of_int duration) gaps t'
            (fst (temperature_loop gaps duration start_time pattern data ambient_temp t g))"
  using assms
proof (induction gaps duration start_time pattern data ambient_temp t g
    rule: temperature_loop.induct)
  case (1 gaps duration start_time pattern data ambient_temp t g)
  show ?case
  proof (cases "t < of_int duration")
    case False
    with 1(2) show ?thesis
      by (subst temperature_loop.simps) auto
  next
    case True
    obtain emit g1 where se: "sample_emitted gaps 0.015 t g = (emit, g1)"
      by (cases "sample_emitted gaps 0.015 t g")
    show ?thesis
    proof (cases emit)
      case False
      obtain step g3 where st: "random_uniform 8 14 g1 = (step, g3)"
        by (cases "random_uniform 8 14 g1")
      have lo: "8 \<le> step"
        using random_uniform_range [of 8 14 g1] st by simp
      have "ticks_ok 8 (of_int duration) gaps (t + step) data"
        using 1(2) lo by (intro ticks_ok_step) simp_all
      moreover have "0 \<le> t + step"
        using 1(3) lo by simp
      ultimately have "\<exists>t'. ticks_ok 8 (of_int duration) gaps t'
            (fst (temperature_loop gaps duration start_time pattern data ambient_temp
               (t + step) g3))"
        using 1(1) [OF True se [symmetric] _ _ st [symmetric], of "(data, ambient_temp)"] False
        by simp
      then show ?thesis
        using True se False st by (subst temperature_loop.simps) simp
    next
      case emit: True
      obtain r ambient_temp' g2 where
        rec: "temperature_record start_time pattern ambient_temp t g1 = ((r, ambient_temp'), g2)"
        by (cases "temperature_record start_time pattern ambient_temp t g1") auto
      obtain step g3 where st: "random_uniform 8 14 g2 = (step, g3)"
        by (cases "random_uniform 8 14 g2")
      have lo: "8 \<le> step"
        using random_uniform_range [of 8 14 g2] st by simp
      have "ticks_ok 8 (of_int duration) gaps (t + step) (data @ [(t, r)])"
        using 1(2,3) lo True sample_emitted_gap [of gaps _ t g g1] se emit
        by (intro ticks_ok_emit) simp_all
      moreover have "0 \<le> t + step"
        using 1(3) lo by simp
      ultimately have "\<exists>t'. ticks_ok 8 (of_int duration) gaps t'
            (fst (temperature_loop gaps duration start_time pattern (data @ [(t, r)])
               ambient_temp' (t + step) g3))"
        using 1(1) [OF True se [symmetric] _ _ st [symmetric],
            of "(data @ [(t, r)], ambient_temp')"] emit rec
        by simp
      then show ?thesis
        using True se emit rec st by (subst temperature_loop.simps) simp
    qed
  qed
qed

text \<open>What the invariant gives for a whole run.\<close>

lemma ticks_ok_sorted:
  assumes "ticks_ok lo duration gaps t data" "0 < lo"
  shows "sorted_wrt (<) (map fst data)"
proof -
  have s: "sorted_wrt (\<lambda>a b. fst a + lo \<le> fst b) data"
    using assms(1) by (simp add: ticks_ok_def)
  have "sorted_wrt (\<lambda>a b. fst a < fst b) data"
  proof (rule sorted_wrt_mono_rel [OF _ s])
    fix x y :: "real \<times> 'a"
    assume "fst x + lo \<le> fst y"
    then show "fst x < fst y"
      using assms(2) by linarith
  qed
  then show ?thesis
    by (simp add: sorted_wrt_map)
qed

lemma ticks_ok_butlast:
  assumes "ticks_ok lo duration gaps t (xs @ [x])"
  shows "ticks_ok lo duration gaps t xs"
  using assms unfolding ticks_ok_def by (simp add: sorted_wrt_append)

lemma ticks_ok_last:
  assumes "ticks_ok lo duration gaps t (xs @ [x])" "xs \<noteq> []"
  shows "fst (last xs) + lo \<le> fst x"
proof -
  have "\<forall>a\<in>set xs. fst a + lo \<le> fst x"
    using assms(1) unfolding ticks_ok_def by (simp add: sorted_wrt_append)
  moreover have "last xs \<in> set xs"
    using assms(2) by (rule last_in_set)
  ultimately show ?thesis
    by blast
qed

lemma ticks_ok_length:
  assumes "ticks_ok lo duration gaps t data" "0 < lo" "data \<noteq> []"
  shows "of_nat (length data - 1) * lo \<le> fst (last data)"
  using assms
proof (induction data rule: rev_induct)
  case Nil
  then show ?case by simp
next
  case (snoc x xs)
  show ?case
  proof (cases "xs = []")
    case True
    have "0 \<le> fst x"
      using snoc(2) unfolding ticks_ok_def by simp
    with True show ?thesis
      by simp
  next
    case False
    have "fst (last xs) + lo \<le> fst x"
      using ticks_ok_last [OF snoc(2) False] .
    moreover have "of_nat (length xs - 1) * lo \<le> fst (last xs)"
      using snoc(1) [OF ticks_ok_butlast [OF snoc(2)] snoc(3) False] .
    moreover have "real (length xs - 1) = real (length xs) - 1"
      using False by (cases xs) simp_all
    ultimately have "real (length xs) * lo \<le> fst x"
      by (simp add: algebra_simps)
    then show ?thesis
      by simp
  qed
qed

lemma ticks_ok_count:
  assumes "ticks_ok lo duration gaps t data" "0 < lo"
  shows "length data \<le> nat \<lceil>duration / lo\<rceil>"
proof (cases "data = []")
  case True
  then show ?thesis by simp
next
  case False
  have "of_nat (length data - 1) * lo \<le> fst (last data)"
    using ticks_ok_length [OF assms False] .
  moreover have "fst (last data) < duration"
    using assms(1) last_in_set [OF False] unfolding ticks_ok_def by blast
  ultimately have "real (length data - 1) * lo < duration"
    by linarith
  then have "real (length data - 1) < duration / lo"
    using assms(2) by (simp add: pos_less_divide_eq)
  also have "duration / lo \<le> of_int \<lceil>duration / lo\<rceil>"
    by (rule le_of_int_ceiling)
  finally have "int (length data - 1) < \<lceil>duration / lo\<rceil>"
    by simp
  moreover have "0 < length data"
    using False by simp
  ultimately show ?thesis
    by linarith
qed

subsection \<open>A concrete run\<close>

lemmas draw_defs = random_uniform_def random_random_def random_gauss_def random_randint_def
  frac_def sample_emitted_def should_have_micro_dropout_def add_noise_def

lemma py_round_numeral [simp]: "py_round (numeral k) = numeral k"
  using py_round_of_int [of "numeral k"] by simp

lemma py_round_zero [simp]: "py_round 0 = 0"
  using py_round_of_int [of 0] by simp

text \<open>Once every draw is below the dropout probability, no further record is emitted.\<close>

lemma sample_emitted_dropout:
  assumes "frac c < p"
  shows "sample_emitted gaps p t (sconst c) = (False, sconst c)"
  using assms by (simp add: sample_emitted_def should_have_micro_dropout_def random_random_def)

lemma random_uniform_sconst:
  "random_uniform a b (sconst c) = (a + (b - a) * frac c, sconst c)"
  by (simp add: random_uniform_def random_random_def)

lemma movement_loop_dropout:
  assumes "frac c < 0.003"
  shows "movement_loop gaps duration start_time pattern data t (sconst c) = (data, sconst c)"
proof (induction gaps duration start_time pattern data t "sconst c" rule: movement_loop.induct)
  case (1 gaps duration start_time pattern data t)
  show ?case
  proof (cases "t < of_int duration")
    case False
    then show ?thesis
      by (subst movement_loop.simps) simp
  next
    case True
    have "movement_loop gaps duration start_time pattern data
            (t + (0.08 + (0.12 - 0.08) * frac c)) (sconst c) = (data, sconst c)"
      using 1 [OF True sample_emitted_dropout [OF assms, symmetric] _
          random_uniform_sconst [symmetric]] by simp
    then show ?thesis
      using True sample_emitted_dropout [OF assms, of gaps t] random_uniform_sconst [of "0.08" "0.12" c]
      by (subst movement_loop.simps) (simp only: prod.case if_False if_True)
  qed
qed

lemma temperature_loop_dropout:
  assumes "frac c < 0.015"
  shows "temperature_loop gaps duration start_time pattern data ambient_temp t (sconst c) =
           (data, sconst c)"
proof (induction gaps duration start_time pattern data ambient_temp t "sconst c"
    rule: temperature_loop.induct)
  case (1 gaps duration start_time pattern data ambient_temp t)
  show ?case
  proof (cases "t < of_int duration")
    case False
    then show ?thesis
      by (subst temperature_loop.simps) simp
  next
    case True
    have "temperature_loop gaps duration start_time pattern data ambient_temp
            (t + (8 + (14 - 8) * frac c)) (sconst c) = (data, sconst c)"
      using 1 [OF True sample_emitted_dropout [OF assms, symmetric] _ _
          random_uniform_sconst [symmetric], of "(data, ambient_temp)"] by simp
    then show ?thesis
      using True sample_emitted_dropout [OF assms, of gaps t] random_uniform_sconst [of 8 14 c]
      by (subst temperature_loop.simps) (simp only: prod.case if_False if_True)
  qed
qed

lemma hr_eval:
  "generate_heart_rate_ticks witness_config (sconst (1 / 2)) =
     ([(0, \<lparr>hr_timestamp = 1710489600000000, hr_bpm = 60, hr_confidence = 0.92\<rparr>)],
      sconst (1 / 2))"
  apply (simp add: generate_heart_rate_ticks_def witness_config_def draw_defs py_int_def
      BASE_TIME_def)
  apply (subst hr_loop.simps)
  apply (simp add: draw_defs heart_rate_record_def simulate_heart_rate_def heart_rate_base_def
      timedelta_seconds_def py_int_def round_ndigits_def py_round_def Let_def)
  apply (subst hr_loop.simps)
  apply (simp add: draw_defs)
  apply (subst hr_loop.simps)
  apply (simp add: draw_defs)
  done

lemma spo2_eval:
  "generate_blood_oxygen_ticks witness_config (sconst (1 / 2)) =
     ([(0, \<lparr>bo_time = 1710489600, bo_spo2 = 98.5, bo_pulse_quality = ''good''\<rparr>)],
      sconst (1 / 2))"
  apply (simp add: generate_blood_oxygen_ticks_def witness_config_def draw_defs py_int_def
      BASE_TIME_def)
  apply (subst blood_oxygen_loop.simps)
  apply (simp add: draw_defs blood_oxygen_record_def simulate_spo2_def datetime_timestamp_def
      timedelta_seconds_def py_int_def round_ndigits_def py_round_def Let_def)
  apply (subst blood_oxygen_loop.simps)
  apply (simp add: draw_defs)
  done

lemma load_eval:
  "generate_load_ticks witness_config (sconst (1 / 2)) =
     ([(0, \<lparr>ld_timestamp = IsoMillis 1710489600 500, ld_load_score = 10,
              ld_activity_type = ''rest'', ld_hr_derived = True\<rparr>)],
      sconst (1 / 2))"
  apply (simp add: generate_load_ticks_def witness_config_def draw_defs py_int_def
      BASE_TIME_def)
  apply (subst load_loop.simps)
  apply (simp add: draw_defs load_record_def simulate_load_def simulate_heart_rate_def
      heart_rate_base_def
      timedelta_seconds_def py_int_def round_ndigits_def py_round_def Let_def)
  apply (subst load_loop.simps)
  apply (simp add: draw_defs)
  done

lemma movement_eval:
  "generate_movement_ticks witness_config witness_movement_rng =
     ([(0, \<lparr>mv_ts = 1710489600000, mv_x = Some 0, mv_y = - 9.81, mv_z = 0,
              mv_magnitude = Some 9.81\<rparr>)],
      sconst (1 / 1000))"
proof -
  have d: "frac (1 / 1000 :: real) < 0.003"
    by (simp add: frac_def)
  show ?thesis
    apply (simp add: generate_movement_ticks_def witness_config_def witness_movement_rng_def
        draw_defs py_int_def BASE_TIME_def)
    apply (subst movement_loop.simps)
    apply (simp add: draw_defs movement_record_def simulate_movement_def movement_axes_def
        datetime_timestamp_def
        timedelta_seconds_def py_int_def round_ndigits_def  Let_def)
    apply (simp add: movement_loop_dropout [OF d])
    apply (simp add: py_round_def)
    done
qed

lemma temperature_eval:
  "generate_temperature_ticks witness_config witness_temperature_rng =
     ([(0, \<lparr>st_recorded_at = 1710489600000000, st_temp_celsius = 36.5,
              st_ambient_temp = 22\<rparr>)],
      sconst (1 / 1000))"
proof -
  have d: "frac (1 / 1000 :: real) < 0.015"
    by (simp add: frac_def)
  show ?thesis
    apply (simp add: generate_temperature_ticks_def witness_config_def
        witness_temperature_rng_def draw_defs py_int_def BASE_TIME_def total_seconds_def
        round_ndigits_def)
    apply (subst temperature_loop.simps)
    apply (simp add: draw_defs temperature_record_def simulate_temperature_def
        timedelta_seconds_def round_ndigits_def Let_def)
    apply (simp add: temperature_loop_dropout [OF d])
    done
qed

subsection \<open>Elapsed time and gaps\<close>

lemma generate_heart_rate_ticks_inv:
  "\<exists>t'. ticks_ok 0.85 (of_int (session_duration config)) (hr_gaps config) t'
          (fst (generate_heart_rate_ticks config g)) \<and>
        (\<forall>(s, r)\<in>set (fst (generate_heart_rate_ticks config g)).
           \<exists>g'. r = fst (heart_rate_record (BASE_TIME + hr_offset config)
                   (fst (random_uniform (- 0.0001) 0.0001 g)) (activity_pattern config) s g'))"
proof -
  obtain d g' where u: "random_uniform (- 0.0001) 0.0001 g = (d, g')"
    by (cases "random_uniform (- 0.0001) 0.0001 g")
  show ?thesis
    unfolding generate_heart_rate_ticks_def session_duration_def Let_def u prod.case fst_conv
    by (rule hr_loop_inv [OF ticks_ok_Nil]) simp_all
qed

lemma generate_movement_ticks_inv:
  "\<exists>t'. ticks_ok 0.08 (of_int (session_duration config)) (movement_gaps config) t'
          (fst (generate_movement_ticks config g)) \<and>
        (\<forall>(s, r)\<in>set (fst (generate_movement_ticks config g)).
           \<exists>g'. r = fst (movement_record (BASE_TIME + movement_offset config)
                   (activity_pattern config) s g'))"
  unfolding generate_movement_ticks_def session_duration_def Let_def
  by (rule movement_loop_inv [OF ticks_ok_Nil]) simp_all

lemma generate_blood_oxygen_ticks_inv:
  "\<exists>t'. ticks_ok 1.5 (of_int (session_duration config)) (spo2_gaps config) t'
          (fst (generate_blood_oxygen_ticks config g)) \<and>
        (\<forall>(s, r)\<in>set (fst (generate_blood_oxygen_ticks config g)).
           \<exists>g'. r = fst (blood_oxygen_record (BASE_TIME + spo2_offset config)
                   (activity_pattern config) s g'))"
  unfolding generate_blood_oxygen_ticks_def session_duration_def Let_def
  by (rule blood_oxygen_loop_inv [OF ticks_ok_Nil]) simp_all

lemma generate_temperature_ticks_inv:
  "\<exists>t'. ticks_ok 8 (of_int (temperature_duration config)) (temp_gaps config) t'
          (fst (generate_temperature_ticks config g))"
proof -
  obtain a g' where u: "random_uniform 20 24 g = (a, g')"
    by (cases "random_uniform 20 24 g")
  show ?thesis
    unfolding generate_temperature_ticks_def temperature_duration_def Let_def u prod.case
    by (rule temperature_loop_inv [OF ticks_ok_Nil]) simp
qed

lemma generate_load_ticks_inv:
  "\<exists>t'. ticks_ok 4 (of_int (session_duration config)) (load_gaps config) t'
          (fst (generate_load_ticks config g)) \<and>
        (\<forall>(s, r)\<in>set (fst (generate_load_ticks config g)).
           \<exists>g'. r = fst (load_record (BASE_TIME + load_offset config)
                   (activity_pattern config) s g'))"
  unfolding generate_load_ticks_def session_duration_def Let_def
  by (rule load_loop_inv [OF ticks_ok_Nil]) simp_all

lemma ticks_ok_bounded:
  assumes "ticks_ok lo (of_int duration) gaps t ticks" "0 < lo"
  shows "ticks_bounded lo duration ticks"
  unfolding ticks_bounded_def
proof (intro conjI)
  show "sorted_wrt (\<lambda>s t. s + lo \<le> t) (map fst ticks)"
    using assms(1) by (simp add: ticks_ok_def sorted_wrt_map)
  show "\<forall>(t, r)\<in>set ticks. 0 \<le> t \<and> t < of_int duration"
    using assms(1) unfolding ticks_ok_def by auto
  show "length ticks \<le> nat \<lceil>of_int duration / lo\<rceil>"
    using ticks_ok_count [OF assms] .
qed

text \<open>
  Claim C9. For every channel and every patient, the true elapsed time of every emitted
  record (so of the last one) is at least 0 and strictly less than the duration of the
  channel; the elapsed times of the emitted records increase strictly, by at least the
  smallest tick step of the channel; and the number of records is bounded, so every
  generator emits a finite sequence. The generators are total functions: the loops
  terminate for every configuration and every state of the random source.
\<close>

theorem elapsed_time_bounded:
  "ticks_bounded 0.85 (session_duration config) (fst (generate_heart_rate_ticks config g1)) \<and>
   ticks_bounded 0.08 (session_duration config) (fst (generate_movement_ticks config g2)) \<and>
   ticks_bounded 1.5 (session_duration config) (fst (generate_blood_oxygen_ticks config g3)) \<and>
   ticks_bounded 8 (temperature_duration config) (fst (generate_temperature_ticks config g4)) \<and>
   ticks_bounded 4 (session_duration config) (fst (generate_load_ticks config g5))"
proof (intro conjI)
  show "ticks_bounded 0.85 (session_duration config) (fst (generate_heart_rate_ticks config g1))"
    using generate_heart_rate_ticks_inv [of config g1] by (auto intro: ticks_ok_bounded)
  show "ticks_bounded 0.08 (session_duration config) (fst (generate_movement_ticks config g2))"
    using generate_movement_ticks_inv [of config g2] by (auto intro: ticks_ok_bounded)
  show "ticks_bounded 1.5 (session_duration config) (fst (generate_blood_oxygen_ticks config g3))"
    using generate_blood_oxygen_ticks_inv [of config g3] by (auto intro: ticks_ok_bounded)
  show "ticks_bounded 8 (temperature_duration config) (fst (generate_temperature_ticks config g4))"
    using generate_temperature_ticks_inv [of config g4] by (auto intro: ticks_ok_bounded)
  show "ticks_bounded 4 (session_duration config) (fst (generate_load_ticks config g5))"
    using generate_load_ticks_inv [of config g5] by (auto intro: ticks_ok_bounded)
qed

lemma witness_durations:
  "session_duration witness_config = 2 \<and> temperature_duration witness_config = 602"
  by (simp add: session_duration_def temperature_duration_def witness_config_def py_int_def
      total_seconds_def)

theorem elapsed_time_bounded_witness:
  "map fst (fst (generate_heart_rate_ticks witness_config (sconst (1 / 2)))) = [0] \<and>
   map fst (fst (generate_movement_ticks witness_config witness_movement_rng)) = [0] \<and>
   map fst (fst (generate_blood_oxygen_ticks witness_config (sconst (1 / 2)))) = [0] \<and>
   map fst (fst (generate_temperature_ticks witness_config witness_temperature_rng)) = [0] \<and>
   map fst (fst (generate_load_ticks witness_config (sconst (1 / 2)))) = [0] \<and>
   ticks_bounded 0.85 2 (fst (generate_heart_rate_ticks witness_config (sconst (1 / 2)))) \<and>
   ticks_bounded 0.08 2 (fst (generate_movement_ticks witness_config witness_movement_rng)) \<and>
   ticks_bounded 1.5 2 (fst (generate_blood_oxygen_ticks witness_config (sconst (1 / 2)))) \<and>
   ticks_bounded 8 602 (fst (generate_temperature_ticks witness_config witness_temperature_rng)) \<and>
   ticks_bounded 4 2 (fst (generate_load_ticks witness_config (sconst (1 / 2))))"
  using elapsed_time_bounded [of witness_config "sconst (1 / 2)" witness_movement_rng
      "sconst (1 / 2)" witness_temperature_rng "sconst (1 / 2)"]
  by (simp add: witness_durations hr_eval movement_eval spo2_eval temperature_eval load_eval)

lemma ticks_ok_gap_free:
  assumes "ticks_ok lo duration gaps t ticks"
  shows "gap_free gaps ticks"
  using assms unfolding ticks_ok_def gap_free_def is_in_gap_iff by fastforce

text \<open>
  Claim C2. For every channel, every configured gap \<open>(start, duration)\<close> of that channel
  and every emitted record of that channel, the true elapsed time of the record does not
  lie in \<open>[start, start + duration)\<close>.
\<close>

theorem gap_exclusion:
  "gap_free (hr_gaps config) (fst (generate_heart_rate_ticks config g1)) \<and>
   gap_free (movement_gaps config) (fst (generate_movement_ticks config g2)) \<and>
   gap_free (spo2_gaps config) (fst (generate_blood_oxygen_ticks config g3)) \<and>
   gap_free (temp_gaps config) (fst (generate_temperature_ticks config g4)) \<and>
   gap_free (load_gaps config) (fst (generate_load_ticks config g5))"
proof (intro conjI)
  show "gap_free (hr_gaps config) (fst (generate_heart_rate_ticks config g1))"
    using generate_heart_rate_ticks_inv [of config g1] by (auto intro: ticks_ok_gap_free)
  show "gap_free (movement_gaps config) (fst (generate_movement_ticks config g2))"
    using generate_movement_ticks_inv [of config g2] by (auto intro: ticks_ok_gap_free)
  show "gap_free (spo2_gaps config) (fst (generate_blood_oxygen_ticks config g3))"
    using generate_blood_oxygen_ticks_inv [of config g3] by (auto intro: ticks_ok_gap_free)
  show "gap_free (temp_gaps config) (fst (generate_temperature_ticks config g4))"
    using generate_temperature_ticks_inv [of config g4] by (auto intro: ticks_ok_gap_free)
  show "gap_free (load_gaps config) (fst (generate_load_ticks config g5))"
    using generate_load_ticks_inv [of config g5] by (auto intro: ticks_ok_gap_free)
qed

theorem gap_exclusion_witness:
  "hr_gaps witness_config = [(1, 1)] \<and>
   map fst (fst (generate_heart_rate_ticks witness_config (sconst (1 / 2)))) = [0] \<and>
   map fst (fst (generate_movement_ticks witness_config witness_movement_rng)) = [0] \<and>
   map fst (fst (generate_blood_oxygen_ticks witness_config (sconst (1 / 2)))) = [0] \<and>
   map fst (fst (generate_temperature_ticks witness_config witness_temperature_rng)) = [0] \<and>
   map fst (fst (generate_load_ticks witness_config (sconst (1 / 2)))) = [0] \<and>
   gap_free [(1, 1)] (fst (generate_heart_rate_ticks witness_config (sconst (1 / 2)))) \<and>
   gap_free [(1, 1)] (fst (generate_movement_ticks witness_config witness_movement_rng)) \<and>
   gap_free [(2, 5)] (fst (generate_blood_oxygen_ticks witness_config (sconst (1 / 2)))) \<and>
   gap_free [(3000, 180)]
     (fst (generate_temperature_ticks witness_config witness_temperature_rng)) \<and>
   gap_free [(900, 480)] (fst (generate_load_ticks witness_config (sconst (1 / 2))))"
  using gap_exclusion [of witness_config "sconst (1 / 2)" witness_movement_rng
      "sconst (1 / 2)" witness_temperature_rng "sconst (1 / 2)"]
  by (simp add: hr_eval movement_eval spo2_eval temperature_eval load_eval)
    (simp add: witness_config_def)

subsection \<open>Heart-rate values\<close>

lemma simulate_heart_rate_range:
  "45 \<le> fst (simulate_heart_rate t pattern g) \<and> fst (simulate_heart_rate t pattern g) \<le> 185"
  by (simp add: simulate_heart_rate_def split: prod.splits)

lemma confidence_low:
  "0.2 \<le> round_ndigits (fst (random_uniform 0.2 0.5 g)) 2 \<and>
   round_ndigits (fst (random_uniform 0.2 0.5 g)) 2 \<le> 0.5"
  using round_ndigits_range [of 20 2 "fst (random_uniform 0.2 0.5 g)" 50]
    random_uniform_range [of "0.2" "0.5" g] by simp

lemma confidence_high:
  "0.85 \<le> round_ndigits (fst (random_uniform 0.85 0.99 g)) 2 \<and>
   round_ndigits (fst (random_uniform 0.85 0.99 g)) 2 \<le> 0.99"
  using round_ndigits_range [of 85 2 "fst (random_uniform 0.85 0.99 g)" 99]
    random_uniform_range [of "0.85" "0.99" g] by simp

text \<open>The two kinds of heart-rate record: the error sentinel, or a reading.\<close>

lemma heart_rate_record_values:
  assumes "r = fst (heart_rate_record start_time drift_rate pattern t g)"
  shows "(hr_bpm r = - 1 \<and> hr_confidence r = 0) \<or>
         (45 \<le> hr_bpm r \<and> hr_bpm r \<le> 185 \<and> 0.2 \<le> hr_confidence r \<and> hr_confidence r \<le> 0.99)"
proof -
  obtain hr g1 where hr: "simulate_heart_rate t pattern g = (hr, g1)"
    by (cases "simulate_heart_rate t pattern g")
  obtain e1 g2 where e1: "random_random g1 = (e1, g2)"
    by (cases "random_random g1")
  obtain e2 g3 where e2: "random_random g2 = (e2, g3)"
    by (cases "random_random g2")
  have range: "45 \<le> hr" "hr \<le> 185"
    using simulate_heart_rate_range [of t pattern g] hr by simp_all
  show ?thesis
  proof (cases "e1 < 0.008")
    case True
    then show ?thesis
      using assms hr e1 by (simp add: heart_rate_record_def Let_def)
  next
    case False
    show ?thesis
    proof (cases "e2 < 0.03")
      case True
      then have "hr_bpm r = hr" "hr_confidence r = round_ndigits (fst (random_uniform 0.2 0.5 g3)) 2"
        using assms hr e1 e2 False
        by (simp_all add: heart_rate_record_def Let_def split: prod.splits)
      then show ?thesis
        using range confidence_low [of g3] by simp
    next
      case nolow: False
      then have "hr_bpm r = hr"
        "hr_confidence r = round_ndigits (fst (random_uniform 0.85 0.99 g3)) 2"
        using assms hr e1 e2 False
        by (simp_all add: heart_rate_record_def Let_def split: prod.splits)
      then show ?thesis
        using range confidence_high [of g3] by simp
    qed
  qed
qed

lemma heart_rate_data_ticks:
  "fst (generate_heart_rate_data config g) = map snd (fst (generate_heart_rate_ticks config g))"
  by (simp add: generate_heart_rate_data_def split: prod.splits)

text \<open>
  Claim C3. For every emitted heart-rate record, \<open>bpm\<close> is either exactly \<open>-1\<close> or an
  integer in \<open>[45, 185]\<close>; \<open>confidence\<close> is \<open>0.0\<close> exactly when \<open>bpm\<close> is \<open>-1\<close>, and
  otherwise lies in \<open>[0.2, 0.99]\<close>.
\<close>

theorem heart_rate_record_ranges:
  "\<forall>r\<in>set (fst (generate_heart_rate_data config g)).
     (hr_bpm r = - 1 \<or> (45 \<le> hr_bpm r \<and> hr_bpm r \<le> 185)) \<and>
     (hr_confidence r = 0 \<longleftrightarrow> hr_bpm r = - 1) \<and>
     (hr_bpm r \<noteq> - 1 \<longrightarrow> 0.2 \<le> hr_confidence r \<and> hr_confidence r \<le> 0.99)"
proof
  fix r
  assume "r \<in> set (fst (generate_heart_rate_data config g))"
  then obtain t where "(t, r) \<in> set (fst (generate_heart_rate_ticks config g))"
    by (auto simp: heart_rate_data_ticks)
  then obtain g' where "r = fst (heart_rate_record (BASE_TIME + hr_offset config)
      (fst (random_uniform (- 0.0001) 0.0001 g)) (activity_pattern config) t g')"
    using generate_heart_rate_ticks_inv [of config g] by blast
  then have "(hr_bpm r = - 1 \<and> hr_confidence r = 0) \<or>
         (45 \<le> hr_bpm r \<and> hr_bpm r \<le> 185 \<and> 0.2 \<le> hr_confidence r \<and> hr_confidence r \<le> 0.99)"
    by (rule heart_rate_record_values)
  then show "(hr_bpm r = - 1 \<or> (45 \<le> hr_bpm r \<and> hr_bpm r \<le> 185)) \<and>
     (hr_confidence r = 0 \<longleftrightarrow> hr_bpm r = - 1) \<and>
     (hr_bpm r \<noteq> - 1 \<longrightarrow> 0.2 \<le> hr_confidence r \<and> hr_confidence r \<le> 0.99)"
    by auto
qed

theorem heart_rate_record_ranges_witness:
  "fst (generate_heart_rate_data witness_config (sconst (1 / 2))) =
     [\<lparr>hr_timestamp = 1710489600000000, hr_bpm = 60, hr_confidence = 0.92\<rparr>] \<and>
   (45 \<le> (60 :: int) \<and> (60 :: int) \<le> 185) \<and> (0.2 :: real) \<le> 0.92 \<and> (0.92 :: real) \<le> 0.99"
  using heart_rate_record_ranges [of witness_config "sconst (1 / 2)"]
  by (simp add: heart_rate_data_ticks hr_eval)

subsection \<open>Clock drift\<close>

lemma heart_rate_record_timestamp:
  "hr_timestamp (fst (heart_rate_record start_time drift_rate pattern t g)) =
     start_time + timedelta_seconds (t * (1 + drift_rate))"
  by (simp add: heart_rate_record_def Let_def split: prod.splits)

lemma heart_rate_record_drift:
  "hr_bpm (fst (heart_rate_record start_time d pattern t g)) =
     hr_bpm (fst (heart_rate_record start_time d' pattern t g)) \<and>
   hr_confidence (fst (heart_rate_record start_time d pattern t g)) =
     hr_confidence (fst (heart_rate_record start_time d' pattern t g)) \<and>
   snd (heart_rate_record start_time d pattern t g) =
     snd (heart_rate_record start_time d' pattern t g)"
  by (simp add: heart_rate_record_def Let_def split: prod.splits)

lemma hr_loop_drift:
  assumes "map hr_reading data = map hr_reading data'"
  shows "map hr_reading (fst (hr_loop gaps duration start_time d pattern data t g)) =
           map hr_reading (fst (hr_loop gaps duration start_time d' pattern data' t g)) \<and>
         snd (hr_loop gaps duration start_time d pattern data t g) =
           snd (hr_loop gaps duration start_time d' pattern data' t g)"
  using assms
proof (induction gaps duration start_time d pattern data t g arbitrary: data'
    rule: hr_loop.induct)
  case (1 gaps duration start_time d pattern data t g)
  show ?case
  proof (cases "t < of_int duration")
    case False
    with 1(2) show ?thesis
      by (subst (1 2 3 4) hr_loop.simps) simp
  next
    case True
    obtain emit g1 where se: "sample_emitted gaps 0.005 t g = (emit, g1)"
      by (cases "sample_emitted gaps 0.005 t g")
    show ?thesis
    proof (cases emit)
      case False
      obtain step g3 where st: "random_uniform 0.85 1.15 g1 = (step, g3)"
        by (cases "random_uniform 0.85 1.15 g1")
      have "map hr_reading (fst (hr_loop gaps duration start_time d pattern data (t + step) g3)) =
              map hr_reading (fst (hr_loop gaps duration start_time d' pattern data' (t + step) g3)) \<and>
            snd (hr_loop gaps duration start_time d pattern data (t + step) g3) =
              snd (hr_loop gaps duration start_time d' pattern data' (t + step) g3)"
        using 1(1) [OF True se [symmetric] _ st [symmetric], of data data'] False 1(2) by simp
      then show ?thesis
        using True se False st by (subst (1 2 3 4) hr_loop.simps) simp
    next
      case emit: True
      obtain r g2 where rec: "heart_rate_record start_time d pattern t g1 = (r, g2)"
        by (cases "heart_rate_record start_time d pattern t g1")
      obtain r' g2' where rec': "heart_rate_record start_time d' pattern t g1 = (r', g2')"
        by (cases "heart_rate_record start_time d' pattern t g1")
      have same: "hr_bpm r = hr_bpm r'" "hr_confidence r = hr_confidence r'" "g2 = g2'"
        using heart_rate_record_drift [of start_time d pattern t g1 d'] rec rec' by simp_all
      obtain step g3 where st: "random_uniform 0.85 1.15 g2 = (step, g3)"
        by (cases "random_uniform 0.85 1.15 g2")
      have "map hr_reading (data @ [(t, r)]) = map hr_reading (data' @ [(t, r')])"
        using 1(2) same by (simp add: hr_reading_def)
      then have "map hr_reading (fst (hr_loop gaps duration start_time d pattern
                    (data @ [(t, r)]) (t + step) g3)) =
              map hr_reading (fst (hr_loop gaps duration start_time d' pattern
                    (data' @ [(t, r')]) (t + step) g3)) \<and>
            snd (hr_loop gaps duration start_time d pattern (data @ [(t, r)]) (t + step) g3) =
              snd (hr_loop gaps duration start_time d' pattern (data' @ [(t, r')]) (t + step) g3)"
        using 1(1) [OF True se [symmetric] _ st [symmetric], of "data @ [(t, r)]"
            "data' @ [(t, r')]"] emit rec by simp
      then show ?thesis
        using True se emit rec rec' st same(3) by (subst (1 2 3 4) hr_loop.simps) simp
    qed
  qed
qed

lemma drift_rate_range:
  "\<bar>fst (random_uniform (- 0.0001) 0.0001 g)\<bar> \<le> 0.0001"
  using random_uniform_range [of "- 0.0001" "0.0001" g] by (simp add: abs_le_iff) linarith

text \<open>
  Claim C6. The heart-rate generator draws one drift factor per run, between \<open>-0.0001\<close> and
  \<open>0.0001\<close>. The timestamp of every emitted record is the start time plus the true elapsed
  time of its tick multiplied by \<open>1 + drift\<close> (as a \<open>timedelta\<close>, so rounded to the
  microsecond). Nothing else depends on the drift: run with any other factor \<open>d\<close> from the
  same state of the random source, the loop emits records at the same tick times with the
  same \<open>bpm\<close> and \<open>confidence\<close>, and leaves the random source in the same state.
\<close>

theorem clock_drift_only_in_timestamp:
  "\<exists>drift_rate g1.
     random_uniform (- 0.0001) 0.0001 g = (drift_rate, g1) \<and>
     \<bar>drift_rate\<bar> \<le> 0.0001 \<and>
     (\<forall>(t, r)\<in>set (fst (generate_heart_rate_ticks config g)).
        hr_timestamp r =
          BASE_TIME + hr_offset config + timedelta_seconds (t * (1 + drift_rate))) \<and>
     (\<forall>d. map hr_reading (fst (hr_loop (hr_gaps config) (session_duration config)
                   (BASE_TIME + hr_offset config) d (activity_pattern config) [] 0 g1)) =
            map hr_reading (fst (generate_heart_rate_ticks config g)) \<and>
          snd (hr_loop (hr_gaps config) (session_duration config)
                   (BASE_TIME + hr_offset config) d (activity_pattern config) [] 0 g1) =
            snd (generate_heart_rate_ticks config g))"
proof -
  obtain drift_rate g1 where u: "random_uniform (- 0.0001) 0.0001 g = (drift_rate, g1)"
    by (cases "random_uniform (- 0.0001) 0.0001 g")
  have run: "generate_heart_rate_ticks config g =
      hr_loop (hr_gaps config) (session_duration config) (BASE_TIME + hr_offset config)
        drift_rate (activity_pattern config) [] 0 g1"
    unfolding generate_heart_rate_ticks_def session_duration_def Let_def u prod.case ..
  have "\<bar>drift_rate\<bar> \<le> 0.0001"
    using drift_rate_range [of g] u by simp
  moreover have "\<forall>(t, r)\<in>set (fst (generate_heart_rate_ticks config g)).
        hr_timestamp r =
          BASE_TIME + hr_offset config + timedelta_seconds (t * (1 + drift_rate))"
    using generate_heart_rate_ticks_inv [of config g] u
    by (auto simp: heart_rate_record_timestamp)
  moreover have "map hr_reading (fst (hr_loop (hr_gaps config) (session_duration config)
                   (BASE_TIME + hr_offset config) d (activity_pattern config) [] 0 g1)) =
            map hr_reading (fst (generate_heart_rate_ticks config g)) \<and>
          snd (hr_loop (hr_gaps config) (session_duration config)
                   (BASE_TIME + hr_offset config) d (activity_pattern config) [] 0 g1) =
            snd (generate_heart_rate_ticks config g)" for d
    unfolding run by (rule hr_loop_drift) simp
  ultimately show ?thesis
    using u by blast
qed

theorem clock_drift_only_in_timestamp_witness:
  "random_uniform (- 0.0001) 0.0001 (sconst (1 / 2)) = (0, sconst (1 / 2)) \<and>
   fst (generate_heart_rate_ticks witness_config (sconst (1 / 2))) =
     [(0, \<lparr>hr_timestamp = 1710489600000000, hr_bpm = 60, hr_confidence = 0.92\<rparr>)] \<and>
   BASE_TIME + hr_offset witness_config + timedelta_seconds (0 * (1 + 0)) = 1710489600000000"
proof -
  have draw: "random_uniform (- 0.0001) 0.0001 (sconst (1 / 2)) = (0, sconst (1 / 2))"
    by (simp add: random_uniform_sconst frac_def)
  have stamp: "BASE_TIME + hr_offset witness_config + timedelta_seconds (0 * (1 + 0)) =
      1710489600000000"
    by (simp add: BASE_TIME_def witness_config_def timedelta_seconds_def)
  show ?thesis
    using clock_drift_only_in_timestamp [of "sconst (1 / 2)" witness_config] draw stamp
    by (simp add: hr_eval)
qed

subsection \<open>Order of the timestamps\<close>

lemma timedelta_seconds_near: "\<bar>of_int (timedelta_seconds x) - x * 1000000\<bar> \<le> 1 / 2"
  unfolding timedelta_seconds_def by (rule py_round_near)

lemma drifted_order:
  assumes "s + 0.85 \<le> t" "\<bar>d\<bar> \<le> 0.0001"
  shows "timedelta_seconds (s * (1 + d)) < timedelta_seconds (t * (1 + d))"
proof -
  have d: "- 1 / 10000 \<le> d"
    using assms(2) by (simp add: abs_le_iff)
  have "17 / 20 * (1 + d) \<le> (t - s) * (1 + d)"
    using assms(1) d by (intro mult_right_mono) simp_all
  moreover have "(t - s) * (1 + d) = t * (1 + d) - s * (1 + d)"
    by (simp add: algebra_simps)
  moreover have "4 / 5 \<le> 17 / 20 * (1 + d)"
    using d by simp
  ultimately have "s * (1 + d) + 4 / 5 \<le> t * (1 + d)"
    by linarith
  then have "s * (1 + d) * 1000000 + 1 < t * (1 + d) * 1000000"
    by linarith
  then show ?thesis
    unfolding timedelta_seconds_def by (rule py_round_strict)
qed

lemma movement_record_ts:
  "mv_ts (fst (movement_record start_time pattern t g)) =
     py_int (datetime_timestamp (start_time + timedelta_seconds t) * 1000)"
  by (simp add: movement_record_def Let_def split: prod.splits)

lemma millisecond_order:
  assumes "s + 0.08 \<le> t"
  shows "py_int (datetime_timestamp (start_time + timedelta_seconds s) * 1000) <
         py_int (datetime_timestamp (start_time + timedelta_seconds t) * 1000)"
proof -
  have "s * 1000000 + 80000 \<le> t * 1000000"
    using assms by simp
  then have far: "real_of_int (timedelta_seconds s) + 79999 \<le> of_int (timedelta_seconds t)"
    using timedelta_seconds_near [of s] timedelta_seconds_near [of t] by linarith
  have ms: "datetime_timestamp (start_time + k) * 1000 =
      (of_int start_time + of_int k) / 1000" for k
    by (simp add: datetime_timestamp_def)
  have "datetime_timestamp (start_time + timedelta_seconds s) * 1000 + 2 \<le>
      datetime_timestamp (start_time + timedelta_seconds t) * 1000"
    unfolding ms using far by (simp add: field_simps)
  then show ?thesis
    by (rule py_int_strict)
qed

lemma blood_oxygen_record_time:
  "bo_time (fst (blood_oxygen_record start_time pattern t g)) =
     py_int (datetime_timestamp (start_time + timedelta_seconds t))"
  by (simp add: blood_oxygen_record_def Let_def split: prod.splits)

lemma second_order:
  assumes "s + 1.5 \<le> t" "0 \<le> s" "0 \<le> start_time"
  shows "py_int (datetime_timestamp (start_time + timedelta_seconds s)) <
         py_int (datetime_timestamp (start_time + timedelta_seconds t))"
proof -
  have "0 \<le> timedelta_seconds s"
    unfolding timedelta_seconds_def using assms(2) by (intro py_round_ge) simp
  then have s0: "0 \<le> datetime_timestamp (start_time + timedelta_seconds s)"
    using assms(3) by (simp add: datetime_timestamp_def)
  have "s * 1000000 + 1500000 \<le> t * 1000000"
    using assms(1) by simp
  then have far: "real_of_int (timedelta_seconds s) + 1000000 \<le> of_int (timedelta_seconds t)"
    using timedelta_seconds_near [of s] timedelta_seconds_near [of t] by linarith
  have sec: "datetime_timestamp (start_time + k) =
      (of_int start_time + of_int k) / 1000000" for k
    by (simp add: datetime_timestamp_def)
  have step: "datetime_timestamp (start_time + timedelta_seconds s) + 1 \<le>
      datetime_timestamp (start_time + timedelta_seconds t)"
    unfolding sec using far by (simp add: field_simps)
  with s0 have t0: "0 \<le> datetime_timestamp (start_time + timedelta_seconds t)"
    by linarith
  have "\<lfloor>datetime_timestamp (start_time + timedelta_seconds s)\<rfloor> + 1 \<le>
      \<lfloor>datetime_timestamp (start_time + timedelta_seconds t)\<rfloor>"
    using step by (metis floor_add_int floor_mono of_int_1)
  then show ?thesis
    using s0 t0 by (simp add: py_int_def)
qed

lemma sorted_stamps:
  fixes ticks :: "(real \<times> 'r) list" and stamp :: "'r \<Rightarrow> int"
  assumes "sorted_wrt (\<lambda>a b. fst a + lo \<le> fst b) ticks"
    and "\<And>a b. a \<in> set ticks \<Longrightarrow> b \<in> set ticks \<Longrightarrow> fst a + lo \<le> fst b \<Longrightarrow>
           stamp (snd a) < stamp (snd b)"
  shows "sorted_wrt (<) (map stamp (map snd ticks))"
proof -
  have "sorted_wrt (\<lambda>a b. stamp (snd a) < stamp (snd b)) ticks"
    using assms(2) by (rule sorted_wrt_mono_rel [OF _ assms(1)])
  then show ?thesis
    by (simp add: sorted_wrt_map)
qed

lemma movement_data_ticks:
  "fst (generate_movement_data config g) = map snd (fst (generate_movement_ticks config g))"
  by (simp add: generate_movement_data_def split: prod.splits)

lemma blood_oxygen_data_ticks:
  "fst (generate_blood_oxygen_data config g) =
     map snd (fst (generate_blood_oxygen_ticks config g))"
  by (simp add: generate_blood_oxygen_data_def split: prod.splits)

lemma heart_rate_stamps_sorted:
  "sorted_wrt (<) (map hr_timestamp (fst (generate_heart_rate_data config g)))"
proof -
  define ticks where "ticks = fst (generate_heart_rate_ticks config g)"
  define d where "d = fst (random_uniform (- 0.0001) 0.0001 g)"
  obtain t' where ok: "ticks_ok 0.85 (of_int (session_duration config)) (hr_gaps config) t' ticks"
    and from_body: "\<forall>(s, r)\<in>set ticks. \<exists>g'. r = fst (heart_rate_record
          (BASE_TIME + hr_offset config) d (activity_pattern config) s g')"
    using generate_heart_rate_ticks_inv [of config g] unfolding ticks_def d_def by blast
  have stamp: "hr_timestamp (snd a) =
      BASE_TIME + hr_offset config + timedelta_seconds (fst a * (1 + d))" if "a \<in> set ticks" for a
    using from_body that by (cases a) (auto simp: heart_rate_record_timestamp)
  have "sorted_wrt (<) (map hr_timestamp (map snd ticks))"
  proof (rule sorted_stamps [where lo = "0.85"])
    show "sorted_wrt (\<lambda>a b. fst a + 0.85 \<le> fst b) ticks"
      using ok by (simp add: ticks_ok_def)
  next
    fix a b
    assume "a \<in> set ticks" "b \<in> set ticks" "fst a + 0.85 \<le> fst b"
    then show "hr_timestamp (snd a) < hr_timestamp (snd b)"
      using drifted_order [of "fst a" "fst b" d] drift_rate_range [of g]
      by (simp add: stamp d_def)
  qed
  then show ?thesis
    by (simp add: heart_rate_data_ticks ticks_def)
qed

lemma movement_stamps_sorted:
  "sorted_wrt (<) (map mv_ts (fst (generate_movement_data config g)))"
proof -
  define ticks where "ticks = fst (generate_movement_ticks config g)"
  obtain t' where
    ok: "ticks_ok 0.08 (of_int (session_duration config)) (movement_gaps config) t' ticks"
    and from_body: "\<forall>(s, r)\<in>set ticks. \<exists>g'. r = fst (movement_record
          (BASE_TIME + movement_offset config) (activity_pattern config) s g')"
    using generate_movement_ticks_inv [of config g] unfolding ticks_def by blast
  have stamp: "mv_ts (snd a) = py_int (datetime_timestamp
      (BASE_TIME + movement_offset config + timedelta_seconds (fst a)) * 1000)"
    if "a \<in> set ticks" for a
    using from_body that by (cases a) (auto simp: movement_record_ts)
  have "sorted_wrt (<) (map mv_ts (map snd ticks))"
  proof (rule sorted_stamps [where lo = "0.08"])
    show "sorted_wrt (\<lambda>a b. fst a + 0.08 \<le> fst b) ticks"
      using ok by (simp add: ticks_ok_def)
  next
    fix a b
    assume "a \<in> set ticks" "b \<in> set ticks" "fst a + 0.08 \<le> fst b"
    then show "mv_ts (snd a) < mv_ts (snd b)"
      using millisecond_order [of "fst a" "fst b" "BASE_TIME + movement_offset config"]
      by (simp add: stamp)
  qed
  then show ?thesis
    by (simp add: movement_data_ticks ticks_def)
qed

lemma blood_oxygen_stamps_sorted:
  assumes "0 \<le> BASE_TIME + spo2_offset config"
  shows "sorted_wrt (<) (map bo_time (fst (generate_blood_oxygen_data config g)))"
proof -
  define ticks where "ticks = fst (generate_blood_oxygen_ticks config g)"
  obtain t' where
    ok: "ticks_ok 1.5 (of_int (session_duration config)) (spo2_gaps config) t' ticks"
    and from_body: "\<forall>(s, r)\<in>set ticks. \<exists>g'. r = fst (blood_oxygen_record
          (BASE_TIME + spo2_offset config) (activity_pattern config) s g')"
    using generate_blood_oxygen_ticks_inv [of config g] unfolding ticks_def by blast
  have stamp: "bo_time (snd a) = py_int (datetime_timestamp
      (BASE_TIME + spo2_offset config + timedelta_seconds (fst a)))"
    if "a \<in> set ticks" for a
    using from_body that by (cases a) (auto simp: blood_oxygen_record_time)
  have nonneg: "0 \<le> fst a" if "a \<in> set ticks" for a
    using ok that by (simp add: ticks_ok_def)
  have "sorted_wrt (<) (map bo_time (map snd ticks))"
  proof (rule sorted_stamps [where lo = "1.5"])
    show "sorted_wrt (\<lambda>a b. fst a + 1.5 \<le> fst b) ticks"
      using ok by (simp add: ticks_ok_def)
  next
    fix a b
    assume "a \<in> set ticks" "b \<in> set ticks" "fst a + 1.5 \<le> fst b"
    then show "bo_time (snd a) < bo_time (snd b)"
      using second_order [of "fst a" "fst b" "BASE_TIME + spo2_offset config"] assms nonneg
      by (simp add: stamp)
  qed
  then show ?thesis
    by (simp add: blood_oxygen_data_ticks ticks_def)
qed

text \<open>
  Claim C10, amended. Within one patient's output for a single channel the emitted timestamps
  increase strictly from record to record: the drifted datetimes of the heart-rate rows, the
  integer Unix milliseconds of the movement entries, and the integer Unix seconds of the
  blood-oxygen rows. For the seconds, \<open>int\<close> truncates toward zero, so the blood-oxygen
  channel must not start before the Unix epoch; every configured patient starts in 2024.
\<close>

theorem timestamps_strictly_increasing:
  "sorted_wrt (<) (map hr_timestamp (fst (generate_heart_rate_data config g1))) \<and>
   sorted_wrt (<) (map mv_ts (fst (generate_movement_data config g2))) \<and>
   (0 \<le> BASE_TIME + spo2_offset config \<longrightarrow>
      sorted_wrt (<) (map bo_time (fst (generate_blood_oxygen_data config g3))))"
  using heart_rate_stamps_sorted movement_stamps_sorted blood_oxygen_stamps_sorted
  by blast

lemma patients_start_after_epoch:
  "0 \<le> BASE_TIME + spo2_offset patient_001 \<and> 0 \<le> BASE_TIME + spo2_offset patient_002 \<and>
   0 \<le> BASE_TIME + spo2_offset patient_003"
  by (simp add: BASE_TIME_def patient_001_def patient_002_def patient_003_def timedelta_def)

lemma hr_eval_two:
  "map hr_timestamp (fst (generate_heart_rate_data (witness_config\<lparr>activity_pattern := ''exercise_session'', hr_gaps := []\<rparr>)
      (sconst (1 / 2)))) = [1710489600000000, 1710489601000000]"
  apply (simp add: heart_rate_data_ticks generate_heart_rate_ticks_def witness_config_def
      draw_defs py_int_def BASE_TIME_def)
  apply (subst hr_loop.simps)
  apply (simp add: draw_defs heart_rate_record_def simulate_heart_rate_def heart_rate_base_def
      timedelta_seconds_def py_int_def round_ndigits_def py_round_def Let_def)
  apply (subst hr_loop.simps)
  apply (simp add: draw_defs heart_rate_record_def simulate_heart_rate_def heart_rate_base_def
      timedelta_seconds_def py_int_def round_ndigits_def py_round_def Let_def
      split: prod.splits)
  apply (subst hr_loop.simps)
  apply (simp add: draw_defs)
  done

theorem timestamps_strictly_increasing_witness:
  "0 \<le> BASE_TIME + spo2_offset patient_001 \<and>
   sorted_wrt (<) (map hr_timestamp (fst (generate_heart_rate_data patient_001 (sconst (1 / 2))))) \<and>
   sorted_wrt (<) (map mv_ts (fst (generate_movement_data patient_001 (sconst (1 / 2))))) \<and>
   sorted_wrt (<) (map bo_time (fst (generate_blood_oxygen_data patient_001 (sconst (1 / 2))))) \<and>
   map hr_timestamp (fst (generate_heart_rate_data (witness_config\<lparr>activity_pattern := ''exercise_session'', hr_gaps := []\<rparr>)
      (sconst (1 / 2)))) = [1710489600000000, 1710489601000000]"
  using timestamps_strictly_increasing [of patient_001 "sconst (1 / 2)" "sconst (1 / 2)"
      "sconst (1 / 2)"] patients_start_after_epoch hr_eval_two
  by simp

lemma spo2_eval_epoch:
  "map bo_time (fst (generate_blood_oxygen_data epoch_config epoch_rng)) = [0, 0]"
  apply (simp add: blood_oxygen_data_ticks generate_blood_oxygen_ticks_def epoch_config_def
      witness_config_def epoch_rng_def draw_defs py_int_def)
  apply (subst blood_oxygen_loop.simps)
  apply (simp add: draw_defs blood_oxygen_record_def simulate_spo2_def datetime_timestamp_def
      timedelta_seconds_def py_int_def round_ndigits_def py_round_def Let_def)
  apply (subst blood_oxygen_loop.simps)
  apply (simp add: draw_defs blood_oxygen_record_def simulate_spo2_def datetime_timestamp_def
      timedelta_seconds_def py_int_def round_ndigits_def py_round_def Let_def)
  apply (subst blood_oxygen_loop.simps)
  apply (simp add: draw_defs)
  done

text \<open>
  Claim C10 as stated has no condition on the start of the channel. For a blood-oxygen
  channel that starts 0.75 seconds before the Unix epoch, the ticks at 0 and at 1.5 seconds
  have the timestamps -0.75 and 0.75, and \<open>int\<close> truncates both to 0.
\<close>

theorem timestamps_counterexample:
  "map bo_time (fst (generate_blood_oxygen_data epoch_config epoch_rng)) = [0, 0] \<and>
   \<not> sorted_wrt (<) (map bo_time (fst (generate_blood_oxygen_data epoch_config epoch_rng))) \<and>
   BASE_TIME + spo2_offset epoch_config = - 750000"
  by (simp add: spo2_eval_epoch) (simp add: epoch_config_def)

subsection \<open>Pulse quality\<close>

lemma simulate_spo2_range:
  "90 \<le> fst (simulate_spo2 t pattern g) \<and> fst (simulate_spo2 t pattern g) \<le> 100"
proof -
  have "90 \<le> round_ndigits (max 90 (min 100 v)) 1 \<and> round_ndigits (max 90 (min 100 v)) 1 \<le> 100"
    for v :: real
    using round_ndigits_range [of 900 1 "max 90 (min 100 v)" 1000] by simp
  then show ?thesis
    by (simp add: simulate_spo2_def Let_def split: prod.splits)
qed

lemma erroneous_low_range:
  "65 \<le> round_ndigits (fst (random_uniform 65 84 g)) 1 \<and>
   round_ndigits (fst (random_uniform 65 84 g)) 1 \<le> 84"
  using round_ndigits_range [of 650 1 "fst (random_uniform 65 84 g)" 840]
    random_uniform_range [of 65 84 g] by simp

lemma impossible_high_range:
  "101 \<le> round_ndigits (fst (random_uniform 101 110 g)) 1 \<and>
   round_ndigits (fst (random_uniform 101 110 g)) 1 \<le> 110"
  using round_ndigits_range [of 1010 1 "fst (random_uniform 101 110 g)" 1100]
    random_uniform_range [of 101 110 g] by simp

lemma blood_oxygen_record_branches:
  assumes "r = fst (blood_oxygen_record start_time pattern t g)"
  shows "(blood_oxygen_branch t pattern g = Reading \<longrightarrow>
            bo_spo2 r = fst (simulate_spo2 t pattern g) \<and> 90 \<le> bo_spo2 r \<and> bo_spo2 r \<le> 100 \<and>
            bo_pulse_quality r =
              (if 97 \<le> bo_spo2 r then ''good'' else if 94 \<le> bo_spo2 r then ''fair''
               else ''poor'')) \<and>
         (blood_oxygen_branch t pattern g = ErroneousLow \<longrightarrow>
            65 \<le> bo_spo2 r \<and> bo_spo2 r \<le> 84 \<and> bo_pulse_quality r = ''poor'') \<and>
         (blood_oxygen_branch t pattern g = ImpossibleHigh \<longrightarrow>
            101 \<le> bo_spo2 r \<and> bo_spo2 r \<le> 110 \<and> bo_pulse_quality r = ''poor'')"
proof -
  obtain spo2 g1 where sp: "simulate_spo2 t pattern g = (spo2, g1)"
    by (cases "simulate_spo2 t pattern g")
  obtain e1 g2 where e1: "random_random g1 = (e1, g2)"
    by (cases "random_random g1")
  obtain e2 g3 where e2: "random_random g2 = (e2, g3)"
    by (cases "random_random g2")
  have range: "90 \<le> spo2" "spo2 \<le> 100"
    using simulate_spo2_range [of t pattern g] sp by simp_all
  show ?thesis
  proof (cases "e1 < 0.005")
    case True
    then have "blood_oxygen_branch t pattern g = ErroneousLow"
      "bo_spo2 r = round_ndigits (fst (random_uniform 65 84 g2)) 1"
      "bo_pulse_quality r = ''poor''"
      using assms sp e1
      by (simp_all add: blood_oxygen_branch_def blood_oxygen_record_def Let_def
          split: prod.splits)
    then show ?thesis
      using erroneous_low_range [of g2] by simp
  next
    case False
    show ?thesis
    proof (cases "e2 < 0.003")
      case True
      then have "blood_oxygen_branch t pattern g = ImpossibleHigh"
        "bo_spo2 r = round_ndigits (fst (random_uniform 101 110 g3)) 1"
        "bo_pulse_quality r = ''poor''"
        using assms sp e1 e2 False
        by (simp_all add: blood_oxygen_branch_def blood_oxygen_record_def Let_def
            split: prod.splits)
      then show ?thesis
        using impossible_high_range [of g3] by simp
    next
      case noerr: False
      then have "blood_oxygen_branch t pattern g = Reading"
        "bo_spo2 r = spo2"
        "bo_pulse_quality r = (if 97 \<le> spo2 then ''good'' else if 94 \<le> spo2 then ''fair''
           else ''poor'')"
        using assms sp e1 e2 False
        by (simp_all add: blood_oxygen_branch_def blood_oxygen_record_def Let_def
            split: prod.splits)
      then show ?thesis
        using range sp by simp
    qed
  qed
qed

text \<open>
  Claim C8. Every emitted blood-oxygen record was built by the loop body in some state of
  the random source, and that state decides the branch. When no error branch fired, \<open>spo2\<close>
  is the simulated value, in \<open>[90, 100]\<close>, and \<open>pulse_quality\<close> is "good" when \<open>spo2\<close> is at
  least 97, "fair" when it is at least 94 and below 97, and "poor" otherwise. When an error
  branch fired, \<open>pulse_quality\<close> is "poor", and \<open>spo2\<close> lies in \<open>[65, 84]\<close> (first branch) or
  in \<open>[101, 110]\<close> (second branch). In particular \<open>pulse_quality\<close> is "poor" whenever
  \<open>spo2\<close> is below 94 or outside \<open>[90, 100]\<close>.
\<close>

theorem pulse_quality_by_branch:
  "\<forall>(t, r)\<in>set (fst (generate_blood_oxygen_ticks config g)). \<exists>g'.
     r = fst (blood_oxygen_record (BASE_TIME + spo2_offset config) (activity_pattern config)
           t g') \<and>
     (blood_oxygen_branch t (activity_pattern config) g' = Reading \<longrightarrow>
        bo_spo2 r = fst (simulate_spo2 t (activity_pattern config) g') \<and>
        90 \<le> bo_spo2 r \<and> bo_spo2 r \<le> 100 \<and>
        bo_pulse_quality r =
          (if 97 \<le> bo_spo2 r then ''good'' else if 94 \<le> bo_spo2 r then ''fair''
           else ''poor'')) \<and>
     (blood_oxygen_branch t (activity_pattern config) g' = ErroneousLow \<longrightarrow>
        65 \<le> bo_spo2 r \<and> bo_spo2 r \<le> 84 \<and> bo_pulse_quality r = ''poor'') \<and>
     (blood_oxygen_branch t (activity_pattern config) g' = ImpossibleHigh \<longrightarrow>
        101 \<le> bo_spo2 r \<and> bo_spo2 r \<le> 110 \<and> bo_pulse_quality r = ''poor'') \<and>
     (bo_spo2 r < 94 \<or> bo_spo2 r < 90 \<or> 100 < bo_spo2 r \<longrightarrow> bo_pulse_quality r = ''poor'')"
proof (intro ballI, clarify)
  fix t r
  assume "(t, r) \<in> set (fst (generate_blood_oxygen_ticks config g))"
  then obtain g' where r: "r = fst (blood_oxygen_record (BASE_TIME + spo2_offset config)
      (activity_pattern config) t g')"
    using generate_blood_oxygen_ticks_inv [of config g] by blast
  note b = blood_oxygen_record_branches [OF r]
  have "bo_pulse_quality r = ''poor''" if "bo_spo2 r < 94 \<or> bo_spo2 r < 90 \<or> 100 < bo_spo2 r"
    using b that by (cases "blood_oxygen_branch t (activity_pattern config) g'") auto
  with r b show "\<exists>g'.
     r = fst (blood_oxygen_record (BASE_TIME + spo2_offset config) (activity_pattern config)
           t g') \<and>
     (blood_oxygen_branch t (activity_pattern config) g' = Reading \<longrightarrow>
        bo_spo2 r = fst (simulate_spo2 t (activity_pattern config) g') \<and>
        90 \<le> bo_spo2 r \<and> bo_spo2 r \<le> 100 \<and>
        bo_pulse_quality r =
          (if 97 \<le> bo_spo2 r then ''good'' else if 94 \<le> bo_spo2 r then ''fair''
           else ''poor'')) \<and>
     (blood_oxygen_branch t (activity_pattern config) g' = ErroneousLow \<longrightarrow>
        65 \<le> bo_spo2 r \<and> bo_spo2 r \<le> 84 \<and> bo_pulse_quality r = ''poor'') \<and>
     (blood_oxygen_branch t (activity_pattern config) g' = ImpossibleHigh \<longrightarrow>
        101 \<le> bo_spo2 r \<and> bo_spo2 r \<le> 110 \<and> bo_pulse_quality r = ''poor'') \<and>
     (bo_spo2 r < 94 \<or> bo_spo2 r < 90 \<or> 100 < bo_spo2 r \<longrightarrow> bo_pulse_quality r = ''poor'')"
    by (intro exI [of _ g']) blast
qed

lemma spo2_ticks_high:
  "fst (generate_blood_oxygen_ticks witness_config high_reading_rng) =
     [(0, \<lparr>bo_time = 1710489600, bo_spo2 = 105.5, bo_pulse_quality = ''poor''\<rparr>)]"
  apply (simp add: generate_blood_oxygen_ticks_def witness_config_def
      high_reading_rng_def draw_defs py_int_def BASE_TIME_def)
  apply (subst blood_oxygen_loop.simps)
  apply (simp add: draw_defs blood_oxygen_record_def simulate_spo2_def datetime_timestamp_def
      timedelta_seconds_def py_int_def round_ndigits_def py_round_def Let_def)
  apply (subst blood_oxygen_loop.simps)
  apply (simp add: draw_defs)
  done

lemma spo2_branch_reading:
  "blood_oxygen_branch 0 ''resting'' (sconst (1 / 2)) = Reading \<and>
   fst (blood_oxygen_record 1710489600000000 ''resting'' 0 (sconst (1 / 2))) =
     \<lparr>bo_time = 1710489600, bo_spo2 = 98.5, bo_pulse_quality = ''good''\<rparr>"
  by (simp add: blood_oxygen_branch_def draw_defs blood_oxygen_record_def simulate_spo2_def
      datetime_timestamp_def timedelta_seconds_def py_int_def round_ndigits_def py_round_def
      Let_def)

lemma spo2_branch_high:
  "blood_oxygen_branch 0 ''resting'' (stl high_reading_rng) = ImpossibleHigh \<and>
   fst (blood_oxygen_record 1710489600000000 ''resting'' 0 (stl high_reading_rng)) =
     \<lparr>bo_time = 1710489600, bo_spo2 = 105.5, bo_pulse_quality = ''poor''\<rparr>"
  by (simp add: blood_oxygen_branch_def high_reading_rng_def draw_defs blood_oxygen_record_def
      simulate_spo2_def datetime_timestamp_def timedelta_seconds_def py_int_def
      round_ndigits_def py_round_def Let_def)

theorem pulse_quality_by_branch_witness:
  "fst (generate_blood_oxygen_ticks witness_config (sconst (1 / 2))) =
     [(0, \<lparr>bo_time = 1710489600, bo_spo2 = 98.5, bo_pulse_quality = ''good''\<rparr>)] \<and>
   blood_oxygen_branch 0 ''resting'' (sconst (1 / 2)) = Reading \<and>
   fst (blood_oxygen_record 1710489600000000 ''resting'' 0 (sconst (1 / 2))) =
     \<lparr>bo_time = 1710489600, bo_spo2 = 98.5, bo_pulse_quality = ''good''\<rparr> \<and>
   fst (generate_blood_oxygen_ticks witness_config high_reading_rng) =
     [(0, \<lparr>bo_time = 1710489600, bo_spo2 = 105.5, bo_pulse_quality = ''poor''\<rparr>)] \<and>
   blood_oxygen_branch 0 ''resting'' (stl high_reading_rng) = ImpossibleHigh \<and>
   fst (blood_oxygen_record 1710489600000000 ''resting'' 0 (stl high_reading_rng)) =
     \<lparr>bo_time = 1710489600, bo_spo2 = 105.5, bo_pulse_quality = ''poor''\<rparr>"
proof -
  have normal: "fst (generate_blood_oxygen_ticks witness_config (sconst (1 / 2))) =
     [(0, \<lparr>bo_time = 1710489600, bo_spo2 = 98.5, bo_pulse_quality = ''good''\<rparr>)]"
    by (simp add: spo2_eval)
  from pulse_quality_by_branch [of witness_config "sconst (1 / 2)"]
    pulse_quality_by_branch [of witness_config high_reading_rng]
    normal spo2_ticks_high spo2_branch_reading spo2_branch_high
  show ?thesis
    by blast
qed

subsection \<open>The exercise profile of the heart rate\<close>

lemma exercise_ramp_up:
  assumes "t < 3240"
  shows "heart_rate_base t ''exercise_session'' = 70 + t / 10800 * 100"
  using assms by (simp add: heart_rate_base_def Let_def)

lemma exercise_plateau:
  assumes "3240 \<le> t" "t < 7560"
  shows "heart_rate_base t ''exercise_session'' = 130 + 20 * sin (t / 10800 * 20)"
  using assms by (simp add: heart_rate_base_def Let_def)

lemma exercise_ramp_down:
  assumes "7560 \<le> t"
  shows "heart_rate_base t ''exercise_session'' = 130 - (t / 10800 - 0.7) * 200"
  using assms by (simp add: heart_rate_base_def Let_def)

text \<open>
  Claim C5, amended. For the exercise pattern the base heart rate follows a three-phase
  profile over a fixed window of three hours (10800 seconds), whatever the configured
  duration: during the first 3240 seconds it rises from 70 towards 100, from 3240 to 7560
  seconds it is \<open>130 + 20 * sin (20 * t / 10800)\<close>, between 110 and 150, and from 7560
  seconds on it falls from 130, reaching 70 again at 10800 seconds. The one configured
  exercise patient has a duration of three hours, where the window and the session agree.
\<close>

theorem exercise_profile_three_hours:
  "(0 \<le> s \<and> s < t \<and> t < 3240 \<longrightarrow>
      70 \<le> heart_rate_base s ''exercise_session'' \<and>
      heart_rate_base s ''exercise_session'' < heart_rate_base t ''exercise_session'' \<and>
      heart_rate_base t ''exercise_session'' < 100) \<and>
   (3240 \<le> t \<and> t < 7560 \<longrightarrow>
      heart_rate_base t ''exercise_session'' = 130 + 20 * sin (t / 10800 * 20) \<and>
      110 \<le> heart_rate_base t ''exercise_session'' \<and>
      heart_rate_base t ''exercise_session'' \<le> 150) \<and>
   (7560 \<le> s \<and> s < t \<longrightarrow>
      heart_rate_base t ''exercise_session'' < heart_rate_base s ''exercise_session'' \<and>
      heart_rate_base s ''exercise_session'' \<le> 130) \<and>
   heart_rate_base 0 ''exercise_session'' = 70 \<and>
   heart_rate_base 10800 ''exercise_session'' = 70 \<and>
   session_duration patient_002 = 10800"
proof (intro conjI impI)
  assume a: "0 \<le> s \<and> s < t \<and> t < 3240"
  then have s: "heart_rate_base s ''exercise_session'' = 70 + s / 10800 * 100"
    and t: "heart_rate_base t ''exercise_session'' = 70 + t / 10800 * 100"
    by (simp_all add: exercise_ramp_up)
  show "70 \<le> heart_rate_base s ''exercise_session''"
    using a unfolding s by simp
  show "heart_rate_base s ''exercise_session'' < heart_rate_base t ''exercise_session''"
    using a unfolding s t by simp
  show "heart_rate_base t ''exercise_session'' < 100"
    using a unfolding t by simp
next
  assume a: "3240 \<le> t \<and> t < 7560"
  then show eq: "heart_rate_base t ''exercise_session'' = 130 + 20 * sin (t / 10800 * 20)"
    by (simp add: exercise_plateau)
  have "- 1 \<le> sin (t / 10800 * 20)" "sin (t / 10800 * 20) \<le> 1"
    by (rule sin_ge_minus_one, rule sin_le_one)
  then show "110 \<le> heart_rate_base t ''exercise_session''"
    "heart_rate_base t ''exercise_session'' \<le> 150"
    unfolding eq by linarith+
next
  assume a: "7560 \<le> s \<and> s < t"
  then have s: "heart_rate_base s ''exercise_session'' = 130 - (s / 10800 - 0.7) * 200"
    and t: "heart_rate_base t ''exercise_session'' = 130 - (t / 10800 - 0.7) * 200"
    by (simp_all add: exercise_ramp_down)
  show "heart_rate_base t ''exercise_session'' < heart_rate_base s ''exercise_session''"
    using a unfolding s t by simp
  show "heart_rate_base s ''exercise_session'' \<le> 130"
    using a unfolding s by simp
next
  show "heart_rate_base 0 ''exercise_session'' = 70"
    by (simp add: exercise_ramp_up)
  show "heart_rate_base 10800 ''exercise_session'' = 70"
    by (simp add: exercise_ramp_down)
  show "session_duration patient_002 = 10800"
    by (simp add: session_duration_def patient_002_def py_int_def)
qed

theorem exercise_profile_three_hours_witness:
  "heart_rate_base 1080 ''exercise_session'' = 80 \<and>
   heart_rate_base 2160 ''exercise_session'' = 90 \<and>
   110 \<le> heart_rate_base 5400 ''exercise_session'' \<and>
   heart_rate_base 5400 ''exercise_session'' \<le> 150 \<and>
   heart_rate_base 8640 ''exercise_session'' = 110 \<and>
   heart_rate_base 9720 ''exercise_session'' < heart_rate_base 8640 ''exercise_session''"
  using exercise_profile_three_hours [of 1080 2160] exercise_profile_three_hours [of 0 5400]
    exercise_profile_three_hours [of 8640 9720]
  by (simp add: exercise_ramp_up exercise_ramp_down)

text \<open>
  Claim C5 as stated places the phases at 30% and 70% of the configured duration. For a
  session of one hour, the tick at 1800 seconds is in the middle of the session, and the
  base rate there is still on the ramp, at 86.7, not on the plateau around 130.
\<close>

theorem exercise_profile_counterexample:
  "activity_pattern one_hour_exercise = ''exercise_session'' \<and>
   session_duration one_hour_exercise = 3600 \<and>
   0.3 * real_of_int (session_duration one_hour_exercise) \<le> 1800 \<and>
   1800 < 0.7 * real_of_int (session_duration one_hour_exercise) \<and>
   heart_rate_base 1800 (activity_pattern one_hour_exercise) = 260 / 3 \<and>
   heart_rate_base 1800 (activity_pattern one_hour_exercise) < 110"
  by (simp add: one_hour_exercise_def patient_002_def session_duration_def py_int_def
      exercise_ramp_up)

subsection \<open>Configurations with a non-positive duration\<close>

lemma hr_loop_done:
  assumes "duration \<le> 0"
  shows "hr_loop gaps duration start_time drift_rate pattern data 0 g = (data, g)"
  using assms by (subst hr_loop.simps) simp

lemma movement_loop_done:
  assumes "duration \<le> 0"
  shows "movement_loop gaps duration start_time pattern data 0 g = (data, g)"
  using assms by (subst movement_loop.simps) simp

lemma blood_oxygen_loop_done:
  assumes "duration \<le> 0"
  shows "blood_oxygen_loop gaps duration start_time pattern data 0 g = (data, g)"
  using assms by (subst blood_oxygen_loop.simps) simp

lemma temperature_loop_done:
  assumes "duration \<le> 0"
  shows "temperature_loop gaps duration start_time pattern data ambient_temp 0 g = (data, g)"
  using assms by (subst temperature_loop.simps) simp

lemma load_loop_done:
  assumes "duration \<le> 0"
  shows "load_loop gaps duration start_time pattern data 0 g = (data, g)"
  using assms by (subst load_loop.simps) simp

lemma session_duration_nonpos:
  assumes "duration_hours config \<le> 0"
  shows "session_duration config \<le> 0"
  unfolding session_duration_def using assms
  by (intro py_int_nonpos) (simp add: mult_le_0_iff)

lemma temperature_data_ticks:
  "fst (generate_temperature_data config g) =
     map snd (fst (generate_temperature_ticks config g))"
  by (simp add: generate_temperature_data_def split: prod.splits)

lemma load_data_ticks:
  "fst (generate_load_data config g) = map snd (fst (generate_load_ticks config g))"
  by (simp add: generate_load_data_def split: prod.splits)

lemma generate_patients_ids:
  "map pd_patient_id (fst (generate_patients configs g)) = map fst configs"
proof (induction configs arbitrary: g)
  case Nil
  show ?case by simp
next
  case (Cons c configs)
  obtain patient_id config where c: "c = (patient_id, config)"
    by (cases c)
  obtain d g1 where d: "generate_patient patient_id config g = (d, g1)"
    by (cases "generate_patient patient_id config g")
  have "pd_patient_id d = patient_id"
    using d by (auto simp: generate_patient_def Let_def split: prod.splits)
  then show ?case
    using Cons [of g1] c d by (cases "generate_patients configs g1") simp
qed

text \<open>
  Claim C4, amended. No configuration makes the program report an error: \<open>main\<close> produces
  an output for every configured patient. A channel whose duration is not positive yields
  an empty sequence of records: the heart-rate, movement, blood-oxygen and load channels when
  \<open>duration_hours\<close> is not positive, the temperature channel when its own, longer duration
  is not positive. The tick step ranges are constants of the source with positive lower
  bounds, not part of the configuration, so no configuration can stall a loop (each loop
  above is a total function).
\<close>

theorem nonpositive_duration_gives_empty_output:
  assumes "duration_hours config \<le> 0"
  shows "fst (generate_heart_rate_data config g1) = [] \<and>
         fst (generate_movement_data config g2) = [] \<and>
         fst (generate_blood_oxygen_data config g3) = [] \<and>
         fst (generate_load_data config g5) = [] \<and>
         (temperature_duration config \<le> 0 \<longrightarrow> fst (generate_temperature_data config g4) = []) \<and>
         map pd_patient_id (main configs g) = map fst configs"
proof -
  have d: "py_int (duration_hours config * 3600) \<le> 0"
    using session_duration_nonpos [OF assms] by (simp add: session_duration_def)
  have "fst (generate_heart_rate_data config g1) = []"
    using d by (simp add: heart_rate_data_ticks generate_heart_rate_ticks_def Let_def
        hr_loop_done split: prod.splits)
  moreover have "fst (generate_movement_data config g2) = []"
    using d by (simp add: movement_data_ticks generate_movement_ticks_def Let_def
        movement_loop_done)
  moreover have "fst (generate_blood_oxygen_data config g3) = []"
    using d by (simp add: blood_oxygen_data_ticks generate_blood_oxygen_ticks_def Let_def
        blood_oxygen_loop_done)
  moreover have "fst (generate_load_data config g5) = []"
    using d by (simp add: load_data_ticks generate_load_ticks_def Let_def load_loop_done)
  moreover have "fst (generate_temperature_data config g4) = []"
    if "temperature_duration config \<le> 0"
    using that by (simp add: temperature_data_ticks generate_temperature_ticks_def
        temperature_duration_def Let_def temperature_loop_done split: prod.splits)
  moreover have "map pd_patient_id (main configs g) = map fst configs"
    by (simp add: main_def generate_patients_ids)
  ultimately show ?thesis
    by simp
qed

lemma negative_duration_run:
  "main [(''patient_001'', negative_duration_config)] (sconst (1 / 2)) =
     [\<lparr>pd_patient_id = ''patient_001'', pd_heart_rate = [], pd_movement = [],
       pd_blood_oxygen = [], pd_skin_temperature = [], pd_load = []\<rparr>]"
proof -
  have d: "duration_hours negative_duration_config = - 1"
    "temp_offset negative_duration_config = 0"
    by (simp_all add: negative_duration_config_def witness_config_def)
  show ?thesis
    by (simp add: main_def generate_patient_def generate_heart_rate_data_def
        generate_heart_rate_ticks_def generate_movement_data_def generate_movement_ticks_def
        generate_blood_oxygen_data_def generate_blood_oxygen_ticks_def
        generate_temperature_data_def generate_temperature_ticks_def generate_load_data_def
        generate_load_ticks_def d py_int_def total_seconds_def Let_def random_uniform_sconst
        hr_loop_done movement_loop_done blood_oxygen_loop_done temperature_loop_done
        load_loop_done)
qed

theorem nonpositive_duration_gives_empty_output_witness:
  "duration_hours negative_duration_config \<le> 0 \<and>
   temperature_duration negative_duration_config \<le> 0 \<and>
   fst (generate_heart_rate_data negative_duration_config (sconst (1 / 2))) = [] \<and>
   fst (generate_movement_data negative_duration_config (sconst (1 / 2))) = [] \<and>
   fst (generate_blood_oxygen_data negative_duration_config (sconst (1 / 2))) = [] \<and>
   fst (generate_load_data negative_duration_config (sconst (1 / 2))) = [] \<and>
   fst (generate_temperature_data negative_duration_config (sconst (1 / 2))) = [] \<and>
   map pd_patient_id (main PATIENT_CONFIGS (sconst (1 / 2))) =
     [''patient_001'', ''patient_002'', ''patient_003'']"
proof -
  have d: "duration_hours negative_duration_config \<le> 0"
    "temperature_duration negative_duration_config \<le> 0"
    by (simp_all add: negative_duration_config_def witness_config_def temperature_duration_def
        py_int_def total_seconds_def)
  show ?thesis
    using nonpositive_duration_gives_empty_output [OF d(1), of "sconst (1 / 2)" "sconst (1 / 2)"
        "sconst (1 / 2)" "sconst (1 / 2)" "sconst (1 / 2)" PATIENT_CONFIGS "sconst (1 / 2)"] d
    by (simp add: PATIENT_CONFIGS_def)
qed

text \<open>
  Claim C4 as stated asks for a fatal configuration error before any generation when a
  duration is not positive. For a duration of minus one hour \<open>main\<close> runs to its end and
  hands five empty sequences to the file writers.
\<close>

theorem configuration_error_counterexample:
  "duration_hours negative_duration_config \<le> 0 \<and>
   main [(''patient_001'', negative_duration_config)] (sconst (1 / 2)) =
     [\<lparr>pd_patient_id = ''patient_001'', pd_heart_rate = [], pd_movement = [],
       pd_blood_oxygen = [], pd_skin_temperature = [], pd_load = []\<rparr>]"
  by (simp add: negative_duration_run) (simp add: negative_duration_config_def)

subsection \<open>The magnitude of a movement record\<close>



















end
